theory Spec2Isabelle
  imports Complex_Main
begin

section \<open>JavaScript values used by the season library\<close>

text \<open>
  The values a field of the options object of \<^verbatim>\<open>getSeason\<close> holds here:
  \<open>JUndefined\<close> is an absent field, \<open>JObject\<close> is a plain object such as \<^verbatim>\<open>{}\<close>
  (it has no \<^verbatim>\<open>toUpperCase\<close> method and prints as \<^verbatim>\<open>[object Object]\<close>).
  Objects that bring methods of their own (a \<^verbatim>\<open>String\<close> object, an array, an object
  with a \<^verbatim>\<open>toUpperCase\<close> or \<^verbatim>\<open>toString\<close> method) are not among these values.
  A number is NaN, an infinity or a finite value; only its comparison with zero
  is ever used. Strings are ASCII strings.
\<close>

datatype number = NaN | NegInfinity | PosInfinity | Finite real

datatype jsval =
    JUndefined
  | JNull
  | JBool bool
  | JNumber number
  | JString string
  | JObject

datatype error = TypeError

text \<open>ToBoolean, as used by \<^verbatim>\<open>!x\<close> and \<^verbatim>\<open>x && y\<close>.\<close>

fun truthy :: "jsval \<Rightarrow> bool" where
  "truthy JUndefined = False"
| "truthy JNull = False"
| "truthy (JBool b) = b"
| "truthy (JNumber NaN) = False"
| "truthy (JNumber (Finite r)) = (r \<noteq> 0)"
| "truthy (JNumber _) = True"
| "truthy (JString s) = (s \<noteq> [])"
| "truthy JObject = True"

text \<open>\<^verbatim>\<open>latitude >= 0\<close> on a number: false for NaN.\<close>

fun number_ge_zero :: "number \<Rightarrow> bool" where
  "number_ge_zero NaN = False"
| "number_ge_zero NegInfinity = False"
| "number_ge_zero PosInfinity = True"
| "number_ge_zero (Finite r) = (0 \<le> r)"

text \<open>\<^verbatim>\<open>String.prototype.toUpperCase\<close> on ASCII strings.\<close>

definition lower_letters :: string where
  "lower_letters = ''abcdefghijklmnopqrstuvwxyz''"

definition upper_letters :: string where
  "upper_letters = ''ABCDEFGHIJKLMNOPQRSTUVWXYZ''"

definition upper_char :: "char \<Rightarrow> char" where
  "upper_char c =
     (case map_of (zip lower_letters upper_letters) c of Some u \<Rightarrow> u | None \<Rightarrow> c)"

definition toUpperCase :: "string \<Rightarrow> string" where
  "toUpperCase s = map upper_char s"

section \<open>season.js\<close>

record options =
  calendarType :: jsval
  seasonType :: jsval
  hemisphere :: jsval
  countryCode :: jsval
  languageCulture :: jsval
  latitude :: jsval
  longitude :: jsval

text \<open>The object literal \<^verbatim>\<open>{}\<close>: every field absent.\<close>

definition no_options :: options where
  "no_options =
     \<lparr>calendarType = JUndefined, seasonType = JUndefined, hemisphere = JUndefined,
      countryCode = JUndefined, languageCulture = JUndefined,
      latitude = JUndefined, longitude = JUndefined\<rparr>"

definition southernCountryCodes :: "string list" where
  "southernCountryCodes =
     [''AO'', ''BW'', ''BI'', ''KM'', ''LS'', ''MG'', ''MW'', ''MU'', ''MZ'', ''NA'', ''RW'',
      ''SC'', ''ZA'', ''SZ'', ''TZ'', ''ZM'', ''ZW'',
      ''CD'', ''GA'', ''CG'',
      ''TL'', ''ID'',
      ''AU'', ''PG'',
      ''AR'', ''BO'', ''CL'', ''PY'', ''PE'', ''UY'', ''BR'', ''EC'',
      ''AS'', ''CK'', ''FJ'', ''PF'', ''NR'', ''NC'', ''NZ'', ''NU'', ''PN'', ''WS'', ''SB'',
      ''TK'', ''TO'', ''TV'', ''VU'', ''WF'',
      ''FK'', ''SH'',
      ''IO'', ''YT'', ''RE'',
      ''AQ'', ''BV'', ''TF'', ''GS'']"

text \<open>
  \<^verbatim>\<open>isSouthernCountry\<close>: a falsy argument gives false; otherwise
  \<^verbatim>\<open>countryCode.toUpperCase()\<close> is called, which raises a TypeError on a value that
  is not a string (a number, \<^verbatim>\<open>true\<close>, a plain object).
\<close>

definition isSouthernCountry :: "jsval \<Rightarrow> error + bool" where
  "isSouthernCountry cc =
     (if \<not> truthy cc then Inr False
      else case cc of
             JString s \<Rightarrow> Inr (toUpperCase s \<in> set southernCountryCodes)
           | _ \<Rightarrow> Inl TypeError)"

text \<open>\<^verbatim>\<open>inferHemisphere\<close>: the result is the string the source returns.\<close>

definition inferHemisphere :: "options \<Rightarrow> error + string" where
  "inferHemisphere opts =
     (if hemisphere opts = JString ''Northern'' then Inr ''Northern''
      else if hemisphere opts = JString ''Southern'' then Inr ''Southern''
      else case (latitude opts, longitude opts) of
             (JNumber lat, JNumber lon) \<Rightarrow>
               Inr (if number_ge_zero lat then ''Northern'' else ''Southern'')
           | _ \<Rightarrow>
               (if truthy (countryCode opts)
                then (case isSouthernCountry (countryCode opts) of
                        Inl e \<Rightarrow> Inl e
                      | Inr b \<Rightarrow> Inr (if b then ''Southern'' else ''Northern''))
                else Inr ''Northern''))"

subsection \<open>Dates\<close>

text \<open>
  A \<^verbatim>\<open>Date\<close> object is either invalid (\<^verbatim>\<open>new Date("x")\<close>) or holds a point in
  time, seen here through its local calendar fields: \<open>date_month\<close> is 0 to 11 and
  \<open>date_day\<close> is the day of the month. The getters of an invalid date answer NaN.
  The numbers of the date arithmetic are integers or NaN: \<open>None\<close> is NaN.
\<close>

record date_fields =
  date_year :: int
  date_month :: nat
  date_day :: nat
  date_hours :: nat
  date_minutes :: nat
  date_seconds :: nat
  date_milliseconds :: nat

datatype js_date = Date date_fields | InvalidDate

type_synonym num = "int option"

fun getMonth :: "js_date \<Rightarrow> num" where
  "getMonth (Date f) = Some (int (date_month f))"
| "getMonth InvalidDate = None"

fun getDate :: "js_date \<Rightarrow> num" where
  "getDate (Date f) = Some (int (date_day f))"
| "getDate InvalidDate = None"

fun num_add :: "num \<Rightarrow> num \<Rightarrow> num" where
  "num_add (Some a) (Some b) = Some (a + b)"
| "num_add _ _ = None"

fun num_mul :: "num \<Rightarrow> num \<Rightarrow> num" where
  "num_mul (Some a) (Some b) = Some (a * b)"
| "num_mul _ _ = None"

text \<open>\<^verbatim>\<open>a <= b\<close> and \<^verbatim>\<open>a >= b\<close>: false as soon as one side is NaN.\<close>

fun num_le :: "num \<Rightarrow> num \<Rightarrow> bool" where
  "num_le (Some a) (Some b) = (a \<le> b)"
| "num_le _ _ = False"

fun num_ge :: "num \<Rightarrow> num \<Rightarrow> bool" where
  "num_ge (Some a) (Some b) = (b \<le> a)"
| "num_ge _ _ = False"

text \<open>\<^verbatim>\<open>s.split(c)\<close> for a separator of one character.\<close>

fun split :: "char \<Rightarrow> string \<Rightarrow> string list" where
  "split c [] = [[]]"
| "split c (x # xs) =
     (if x = c then [] # split c xs
      else case split c xs of
             [] \<Rightarrow> [[x]]
           | y # ys \<Rightarrow> (x # y) # ys)"

text \<open>
  \<^verbatim>\<open>Number(s)\<close> on a string of decimal digits, the only strings the season table
  holds. Every other string is answered with NaN here; JavaScript reads more forms
  (the empty string, blanks, signs, fractions, exponents, hexadecimal), none of which
  reaches this function from the table.
\<close>

definition digit_value :: "char \<Rightarrow> int option" where
  "digit_value c = map_of (zip ''0123456789'' [0, 1, 2, 3, 4, 5, 6, 7, 8, 9]) c"

fun digits_value :: "int \<Rightarrow> string \<Rightarrow> num" where
  "digits_value acc [] = Some acc"
| "digits_value acc (c # cs) =
     (case digit_value c of
        None \<Rightarrow> None
      | Some d \<Rightarrow> digits_value (10 * acc + d) cs)"

definition Number :: "string \<Rightarrow> num" where
  "Number s = (if s = [] then None else digits_value 0 s)"

text \<open>
  An element of an array destructuring pattern: a missing element is
  \<^verbatim>\<open>undefined\<close>, which becomes NaN in the arithmetic that follows.
\<close>

definition element :: "num list \<Rightarrow> nat \<Rightarrow> num" where
  "element xs i = (if i < length xs then xs ! i else None)"

definition isDateInRange :: "js_date \<Rightarrow> string \<Rightarrow> string \<Rightarrow> bool" where
  "isDateInRange date start end' =
     (let month = num_add (getMonth date) (Some 1);
          day = getDate date;
          s = map Number (split CHR ''-'' start);
          sMonth = element s 0; sDay = element s 1;
          e = map Number (split CHR ''-'' end');
          eMonth = element e 0; eDay = element e 1;
          startNum = num_add (num_mul sMonth (Some 100)) sDay;
          endNum = num_add (num_mul eMonth (Some 100)) eDay;
          curNum = num_add (num_mul month (Some 100)) day
      in if num_le startNum endNum
         then num_ge curNum startNum \<and> num_le curNum endNum
         else num_ge curNum startNum \<or> num_le curNum endNum)"

subsection \<open>The season table and getSeason\<close>

record date_range =
  range_start :: string
  range_end :: string

text \<open>
  An object literal is an association list: \<^verbatim>\<open>Object.entries\<close> lists the string keys
  in the order they were written.
\<close>

type_synonym season_defs = "(string \<times> date_range) list"

definition seasonDefinitions :: "(string \<times> (string \<times> season_defs) list) list" where
  "seasonDefinitions =
     [(''Astronomical'',
        [(''Northern'',
           [(''Spring'', \<lparr>range_start = ''03-21'', range_end = ''06-20''\<rparr>),
            (''Summer'', \<lparr>range_start = ''06-21'', range_end = ''09-20''\<rparr>),
            (''Autumn'', \<lparr>range_start = ''09-21'', range_end = ''12-20''\<rparr>),
            (''Winter'', \<lparr>range_start = ''12-21'', range_end = ''03-20''\<rparr>)]),
         (''Southern'',
           [(''Spring'', \<lparr>range_start = ''09-21'', range_end = ''12-20''\<rparr>),
            (''Summer'', \<lparr>range_start = ''12-21'', range_end = ''03-20''\<rparr>),
            (''Autumn'', \<lparr>range_start = ''03-21'', range_end = ''06-20''\<rparr>),
            (''Winter'', \<lparr>range_start = ''06-21'', range_end = ''09-20''\<rparr>)])]),
      (''Meteorological'',
        [(''Northern'',
           [(''Spring'', \<lparr>range_start = ''03-01'', range_end = ''05-31''\<rparr>),
            (''Summer'', \<lparr>range_start = ''06-01'', range_end = ''08-31''\<rparr>),
            (''Autumn'', \<lparr>range_start = ''09-01'', range_end = ''11-30''\<rparr>),
            (''Winter'', \<lparr>range_start = ''12-01'', range_end = ''02-29''\<rparr>)]),
         (''Southern'',
           [(''Spring'', \<lparr>range_start = ''09-01'', range_end = ''11-30''\<rparr>),
            (''Summer'', \<lparr>range_start = ''12-01'', range_end = ''02-29''\<rparr>),
            (''Autumn'', \<lparr>range_start = ''03-01'', range_end = ''05-31''\<rparr>),
            (''Winter'', \<lparr>range_start = ''06-01'', range_end = ''08-31''\<rparr>)])])]"

text \<open>
  \<^verbatim>\<open>seasonDefinitions[calendarType][hemisphere]\<close> followed by
  \<^verbatim>\<open>Object.entries(defs)\<close>. A key that is not a string is converted to one
  (\<^verbatim>\<open>"null"\<close>, \<^verbatim>\<open>"true"\<close>, a numeral, \<^verbatim>\<open>"[object Object]"\<close>), which is never a
  key of the table. When the first lookup gives \<^verbatim>\<open>undefined\<close>, reading a property
  of it raises a TypeError. A name inherited from \<^verbatim>\<open>Object.prototype\<close> (such as
  \<^verbatim>\<open>"constructor"\<close>) gives a value whose hemisphere property is
  \<^verbatim>\<open>undefined\<close>, and \<^verbatim>\<open>Object.entries(undefined)\<close> raises a TypeError as well.
\<close>

definition lookup_defs :: "jsval \<Rightarrow> string \<Rightarrow> error + season_defs" where
  "lookup_defs calType hemi =
     (case calType of
        JString k \<Rightarrow>
          (case map_of seasonDefinitions k of
             None \<Rightarrow> Inl TypeError
           | Some byHemisphere \<Rightarrow>
               (case map_of byHemisphere hemi of
                  None \<Rightarrow> Inl TypeError
                | Some defs \<Rightarrow> Inr defs))
      | _ \<Rightarrow> Inl TypeError)"

text \<open>The \<^verbatim>\<open>for\<close> loop of \<^verbatim>\<open>getSeason\<close> with its fallback.\<close>

fun first_season :: "js_date \<Rightarrow> season_defs \<Rightarrow> string" where
  "first_season date [] = ''Unknown''"
| "first_season date ((season, rng) # rest) =
     (if isDateInRange date (range_start rng) (range_end rng) then season
      else first_season date rest)"

definition getSeason :: "js_date \<Rightarrow> options \<Rightarrow> error + string" where
  "getSeason date opts =
     (let calType = (case calendarType opts of
                       JUndefined \<Rightarrow> JString ''Astronomical''
                     | v \<Rightarrow> v)
      in case inferHemisphere opts of
           Inl e \<Rightarrow> Inl e
         | Inr hemi \<Rightarrow>
             (case lookup_defs calType hemi of
                Inl e \<Rightarrow> Inl e
              | Inr defs \<Rightarrow> Inr (first_season date defs)))"

section \<open>snow.js\<close>

subsection \<open>The page, the worker and the stored preference\<close>

text \<open>
  The messages \<^verbatim>\<open>postMessage\<close> sends to the rendering worker: the canvas transfer,
  start, stop, and resize with \<^verbatim>\<open>innerWidth\<close> and \<^verbatim>\<open>innerHeight\<close>.
\<close>

datatype message = Canvas | Start | Stop | Resize nat nat

text \<open>
  What the script reads and writes in one tab: the messages posted to the worker so
  far (oldest first), \<^verbatim>\<open>document.title\<close>, the constant \<^verbatim>\<open>pageTitle\<close>, the values of
  the \<^verbatim>\<open>.snow-toggle__control\<close> elements of the markup, the value of the checked one,
  \<^verbatim>\<open>snowToggle.hidden\<close>, the window size, and the state of the throttle: its
  \<^verbatim>\<open>waiting\<close> latch and the deadlines (in milliseconds of a virtual clock) of the
  pending \<^verbatim>\<open>setTimeout\<close> callbacks.
\<close>

record tab =
  worker :: "message list"
  title :: string
  pageTitle :: string
  controls :: "string list"
  checked :: "string option"
  hidden :: bool
  innerWidth :: nat
  innerHeight :: nat
  waiting :: bool
  timers :: "nat list"

text \<open>\<^verbatim>\<open>localStorage\<close>, shared by the tabs of one origin; \<^verbatim>\<open>getItem\<close> answers
  \<^verbatim>\<open>null\<close> (\<open>None\<close>) for a missing key.\<close>

type_synonym storage = "string \<rightharpoonup> string"

definition getItem :: "storage \<Rightarrow> string \<Rightarrow> string option" where
  "getItem ls k = ls k"

definition setItem :: "storage \<Rightarrow> string \<Rightarrow> string \<Rightarrow> storage" where
  "setItem ls k v = ls(k \<mapsto> v)"

definition storageKey :: string where
  "storageKey = ''snow''"

text \<open>The methods of \<^verbatim>\<open>SnowfallWorker\<close>.\<close>

definition start :: "tab \<Rightarrow> tab" where
  "start t = t\<lparr>worker := worker t @ [Start]\<rparr>"

definition stop :: "tab \<Rightarrow> tab" where
  "stop t = t\<lparr>worker := worker t @ [Stop]\<rparr>"

definition resize :: "tab \<Rightarrow> tab" where
  "resize t = t\<lparr>worker := worker t @ [Resize (innerWidth t) (innerHeight t)]\<rparr>"

text \<open>The constructor: transfer the canvas, then \<^verbatim>\<open>this.resize()\<close>.\<close>

definition new_SnowfallWorker :: "tab \<Rightarrow> tab" where
  "new_SnowfallWorker t = resize (t\<lparr>worker := worker t @ [Canvas]\<rparr>)"

text \<open>The title prefix: the snowflake U+2744, the variation selector U+FE0F
  (both in UTF-8) and a blank.\<close>

definition title_prefix :: string where
  "title_prefix = [CHR 0xE2, CHR 0x9D, CHR 0x84, CHR 0xEF, CHR 0xB8, CHR 0x8F, CHR '' '']"

text \<open>\<^verbatim>\<open>changeSnowAnimation\<close>: the argument is a string or \<^verbatim>\<open>null\<close>.\<close>

definition changeSnowAnimation :: "string option \<Rightarrow> tab \<Rightarrow> tab" where
  "changeSnowAnimation animationName t =
     (if animationName = Some ''none''
      then (stop t)\<lparr>title := pageTitle t\<rparr>
      else if animationName = Some ''snowfall''
      then (start t)\<lparr>title := title_prefix @ pageTitle t\<rparr>
      else t)"

text \<open>
  \<^verbatim>\<open>snowToggle.querySelector(".snow-toggle__control[value='v']").checked = true\<close>:
  when no control has the value, \<^verbatim>\<open>querySelector\<close> answers \<^verbatim>\<open>null\<close> and the
  assignment raises a TypeError. (Values are taken to need no escaping in the selector.)
\<close>

definition check_control :: "string \<Rightarrow> tab \<Rightarrow> error + tab" where
  "check_control v t =
     (if v \<in> set (controls t) then Inr (t\<lparr>checked := Some v\<rparr>) else Inl TypeError)"

subsection \<open>window.onload\<close>

text \<open>
  The handler; \<open>now\<close> is the value of \<^verbatim>\<open>new Date()\<close>. The canvas and the toggle
  container are taken to exist. An error ends the handler, so the statements after
  it do not run. \<^verbatim>\<open>isWinter && currentStorage\<close> holds for a stored string that is not
  empty, so \<open>the currentStorage\<close> is that string. The listeners registered at the
  end are the functions of the next subsections; creating the throttled one clears
  its latch.
\<close>

definition onload :: "js_date \<Rightarrow> storage \<Rightarrow> tab \<Rightarrow> error + tab" where
  "onload now ls t0 =
     (let t1 = new_SnowfallWorker t0;
          t2 = t1\<lparr>pageTitle := title t1\<rparr>
      in case getSeason now no_options of
           Inl e \<Rightarrow> Inl e
         | Inr season \<Rightarrow>
             (let isWinter = (season = ''Winter'');
                  currentStorage = getItem ls storageKey;
                  restored =
                    (if isWinter \<and> currentStorage \<noteq> None \<and> currentStorage \<noteq> Some []
                     then (case check_control (the currentStorage) t2 of
                             Inl e \<Rightarrow> Inl e
                           | Inr t3 \<Rightarrow> Inr (changeSnowAnimation currentStorage t3))
                     else if isWinter
                     then (case check_control ''snowfall'' t2 of
                             Inl e \<Rightarrow> Inl e
                           | Inr t3 \<Rightarrow> Inr (changeSnowAnimation (Some ''snowfall'') t3))
                     else Inr t2)
              in case restored of
                   Inl e \<Rightarrow> Inl e
                 | Inr t4 \<Rightarrow> Inr (t4\<lparr>hidden := \<not> isWinter, waiting := False\<rparr>)))"

subsection \<open>Event listeners\<close>

text \<open>The \<^verbatim>\<open>storage\<close> listener: another tab changed the stored preference.\<close>

definition storage_listener :: "storage \<Rightarrow> tab \<Rightarrow> tab" where
  "storage_listener ls t = changeSnowAnimation (getItem ls storageKey) t"

text \<open>The \<^verbatim>\<open>change\<close> listener of a radio control whose value is \<open>v\<close>.\<close>

definition radio_change :: "string \<Rightarrow> storage \<times> tab \<Rightarrow> storage \<times> tab" where
  "radio_change v st =
     (case st of (ls, t) \<Rightarrow> (setItem ls storageKey v, changeSnowAnimation (Some v) t))"

subsection \<open>The throttled resize listener\<close>

text \<open>
  \<^verbatim>\<open>throttle(func, wait)\<close> called at time \<open>now\<close> of the virtual clock:
  \<^verbatim>\<open>setTimeout(..., wait)\<close> registers a callback with the deadline \<open>now + wait\<close>.
\<close>

definition throttle :: "(tab \<Rightarrow> tab) \<Rightarrow> nat \<Rightarrow> nat \<Rightarrow> tab \<Rightarrow> tab" where
  "throttle func wait now t =
     (if \<not> waiting t
      then (let t' = func t in t'\<lparr>waiting := True, timers := timers t' @ [now + wait]\<rparr>)
      else t)"

definition resize_listener :: "nat \<Rightarrow> tab \<Rightarrow> tab" where
  "resize_listener = throttle resize 33"

text \<open>
  The event loop reaching time \<open>now\<close>: every callback whose deadline has come runs
  (\<^verbatim>\<open>waiting = false\<close>) and leaves the queue.
\<close>

definition advance :: "nat \<Rightarrow> tab \<Rightarrow> tab" where
  "advance now t =
     (if \<exists>d \<in> set (timers t). d \<le> now
      then t\<lparr>waiting := False, timers := filter (\<lambda>d. now < d) (timers t)\<rparr>
      else t)"

text \<open>
  A resize event at time \<open>now\<close>, the window then having the given size: the due
  callbacks have run before the listener does.
\<close>

record resize_event =
  ev_time :: nat
  ev_width :: nat
  ev_height :: nat

definition on_resize :: "tab \<Rightarrow> resize_event \<Rightarrow> tab" where
  "on_resize t ev =
     resize_listener (ev_time ev)
       ((advance (ev_time ev) t)\<lparr>innerWidth := ev_width ev, innerHeight := ev_height ev\<rparr>)"

definition on_resizes :: "tab \<Rightarrow> resize_event list \<Rightarrow> tab" where
  "on_resizes t evs = foldl on_resize t evs"

subsection \<open>Notions of the specification\<close>

text \<open>
  The animation state as the worker sees it: running after a start message, stopped
  after a stop message and at the beginning.
\<close>

datatype animation = Stopped | Running

fun animation_after :: "animation \<Rightarrow> message list \<Rightarrow> animation" where
  "animation_after a [] = a"
| "animation_after a (Start # ms) = animation_after Running ms"
| "animation_after a (Stop # ms) = animation_after Stopped ms"
| "animation_after a (_ # ms) = animation_after a ms"

definition animation_state :: "tab \<Rightarrow> animation" where
  "animation_state t = animation_after Stopped (worker t)"

text \<open>A month (1 to 12) and a day form a date of the calendar; February has 29 days.\<close>

definition days_in_month :: "nat \<Rightarrow> nat" where
  "days_in_month m =
     (if m = 2 then 29
      else if m \<in> {4, 6, 9, 11} then 30
      else 31)"

definition valid_month_day :: "nat \<Rightarrow> nat \<Rightarrow> bool" where
  "valid_month_day m d = (1 \<le> m \<and> m \<le> 12 \<and> 1 \<le> d \<and> d \<le> days_in_month m)"

text \<open>\<^verbatim>\<open>curNum\<close> of \<^verbatim>\<open>isDateInRange\<close> for a valid date.\<close>

definition curNum :: "date_fields \<Rightarrow> int" where
  "curNum f = (int (date_month f) + 1) * 100 + int (date_day f)"

text \<open>Midnight of a day, as \<^verbatim>\<open>new Date(year, monthIndex, day)\<close> gives it.\<close>

definition date_at :: "int \<Rightarrow> nat \<Rightarrow> nat \<Rightarrow> js_date" where
  "date_at y m d =
     Date \<lparr>date_year = y, date_month = m, date_day = d, date_hours = 0,
           date_minutes = 0, date_seconds = 0, date_milliseconds = 0\<rparr>"

text \<open>Two strings that differ at most in the case of their ASCII letters.\<close>

definition lower_char :: "char \<Rightarrow> char" where
  "lower_char c =
     (case map_of (zip upper_letters lower_letters) c of Some l \<Rightarrow> l | None \<Rightarrow> c)"

definition same_ignoring_case :: "string \<Rightarrow> string \<Rightarrow> bool" where
  "same_ignoring_case a b = (map lower_char a = map lower_char b)"

text \<open>Resize events that are each more than \<open>wait\<close> milliseconds after the one before.\<close>

fun spaced_beyond :: "nat \<Rightarrow> nat list \<Rightarrow> bool" where
  "spaced_beyond wait [] = True"
| "spaced_beyond wait [x] = True"
| "spaced_beyond wait (x # y # r) = (x + wait < y \<and> spaced_beyond wait (y # r))"

section \<open>Properties of season.js\<close>

subsection \<open>Range membership on the table\<close>

lemma isDateInRange_numeric:
  assumes "map Number (split CHR ''-'' s) = [Some sm, Some sd]"
      and "map Number (split CHR ''-'' e) = [Some em, Some ed]"
  shows "isDateInRange (Date f) s e =
           (if sm * 100 + sd \<le> em * 100 + ed
            then sm * 100 + sd \<le> curNum f \<and> curNum f \<le> em * 100 + ed
            else sm * 100 + sd \<le> curNum f \<or> curNum f \<le> em * 100 + ed)"
  using assms by (simp add: isDateInRange_def Let_def element_def curNum_def)

lemma parse_table:
  "map Number (split CHR ''-'' ''03-21'') = [Some 3, Some 21]"
  "map Number (split CHR ''-'' ''06-20'') = [Some 6, Some 20]"
  "map Number (split CHR ''-'' ''06-21'') = [Some 6, Some 21]"
  "map Number (split CHR ''-'' ''09-20'') = [Some 9, Some 20]"
  "map Number (split CHR ''-'' ''09-21'') = [Some 9, Some 21]"
  "map Number (split CHR ''-'' ''12-20'') = [Some 12, Some 20]"
  "map Number (split CHR ''-'' ''12-21'') = [Some 12, Some 21]"
  "map Number (split CHR ''-'' ''03-20'') = [Some 3, Some 20]"
  "map Number (split CHR ''-'' ''03-01'') = [Some 3, Some 1]"
  "map Number (split CHR ''-'' ''05-31'') = [Some 5, Some 31]"
  "map Number (split CHR ''-'' ''06-01'') = [Some 6, Some 1]"
  "map Number (split CHR ''-'' ''08-31'') = [Some 8, Some 31]"
  "map Number (split CHR ''-'' ''09-01'') = [Some 9, Some 1]"
  "map Number (split CHR ''-'' ''11-30'') = [Some 11, Some 30]"
  "map Number (split CHR ''-'' ''12-01'') = [Some 12, Some 1]"
  "map Number (split CHR ''-'' ''02-29'') = [Some 2, Some 29]"
  by (simp_all add: Number_def digit_value_def)

lemma in_range_table:
  "isDateInRange (Date f) ''03-21'' ''06-20'' = (321 \<le> curNum f \<and> curNum f \<le> 620)"
  "isDateInRange (Date f) ''06-21'' ''09-20'' = (621 \<le> curNum f \<and> curNum f \<le> 920)"
  "isDateInRange (Date f) ''09-21'' ''12-20'' = (921 \<le> curNum f \<and> curNum f \<le> 1220)"
  "isDateInRange (Date f) ''12-21'' ''03-20'' = (1221 \<le> curNum f \<or> curNum f \<le> 320)"
  "isDateInRange (Date f) ''03-01'' ''05-31'' = (301 \<le> curNum f \<and> curNum f \<le> 531)"
  "isDateInRange (Date f) ''06-01'' ''08-31'' = (601 \<le> curNum f \<and> curNum f \<le> 831)"
  "isDateInRange (Date f) ''09-01'' ''11-30'' = (901 \<le> curNum f \<and> curNum f \<le> 1130)"
  "isDateInRange (Date f) ''12-01'' ''02-29'' = (1201 \<le> curNum f \<or> curNum f \<le> 229)"
  by (simp_all add: isDateInRange_numeric [OF parse_table(1) parse_table(2)]
      isDateInRange_numeric [OF parse_table(3) parse_table(4)]
      isDateInRange_numeric [OF parse_table(5) parse_table(6)]
      isDateInRange_numeric [OF parse_table(7) parse_table(8)]
      isDateInRange_numeric [OF parse_table(9) parse_table(10)]
      isDateInRange_numeric [OF parse_table(11) parse_table(12)]
      isDateInRange_numeric [OF parse_table(13) parse_table(14)]
      isDateInRange_numeric [OF parse_table(15) parse_table(16)])

lemma lookup_defs_table:
  "lookup_defs (JString ''Astronomical'') ''Northern'' = Inr
           [(''Spring'', \<lparr>range_start = ''03-21'', range_end = ''06-20''\<rparr>),
            (''Summer'', \<lparr>range_start = ''06-21'', range_end = ''09-20''\<rparr>),
            (''Autumn'', \<lparr>range_start = ''09-21'', range_end = ''12-20''\<rparr>),
            (''Winter'', \<lparr>range_start = ''12-21'', range_end = ''03-20''\<rparr>)]"
  "lookup_defs (JString ''Astronomical'') ''Southern'' = Inr
           [(''Spring'', \<lparr>range_start = ''09-21'', range_end = ''12-20''\<rparr>),
            (''Summer'', \<lparr>range_start = ''12-21'', range_end = ''03-20''\<rparr>),
            (''Autumn'', \<lparr>range_start = ''03-21'', range_end = ''06-20''\<rparr>),
            (''Winter'', \<lparr>range_start = ''06-21'', range_end = ''09-20''\<rparr>)]"
  "lookup_defs (JString ''Meteorological'') ''Northern'' = Inr
           [(''Spring'', \<lparr>range_start = ''03-01'', range_end = ''05-31''\<rparr>),
            (''Summer'', \<lparr>range_start = ''06-01'', range_end = ''08-31''\<rparr>),
            (''Autumn'', \<lparr>range_start = ''09-01'', range_end = ''11-30''\<rparr>),
            (''Winter'', \<lparr>range_start = ''12-01'', range_end = ''02-29''\<rparr>)]"
  "lookup_defs (JString ''Meteorological'') ''Southern'' = Inr
           [(''Spring'', \<lparr>range_start = ''09-01'', range_end = ''11-30''\<rparr>),
            (''Summer'', \<lparr>range_start = ''12-01'', range_end = ''02-29''\<rparr>),
            (''Autumn'', \<lparr>range_start = ''03-01'', range_end = ''05-31''\<rparr>),
            (''Winter'', \<lparr>range_start = ''06-01'', range_end = ''08-31''\<rparr>)]"
  by (simp_all add: lookup_defs_def seasonDefinitions_def)

lemma inferHemisphere_cases:
  "inferHemisphere opts = Inr h \<Longrightarrow> h = ''Northern'' \<or> h = ''Southern''"
  by (auto simp: inferHemisphere_def isSouthernCountry_def
           split: if_splits jsval.splits sum.splits)

lemma valid_curNum:
  assumes "valid_month_day (date_month f + 1) (date_day f)"
  shows "101 \<le> curNum f \<and> curNum f \<le> 1231 \<and>
         \<not> (230 \<le> curNum f \<and> curNum f \<le> 300) \<and>
         \<not> (532 \<le> curNum f \<and> curNum f \<le> 600) \<and>
         \<not> (832 \<le> curNum f \<and> curNum f \<le> 900) \<and>
         \<not> (1131 \<le> curNum f \<and> curNum f \<le> 1200)"
proof -
  define m where "m = date_month f"
  define d where "d = date_day f"
  have m: "m \<le> 11" and d: "1 \<le> d" "d \<le> days_in_month (m + 1)"
    using assms by (simp_all add: valid_month_day_def m_def d_def)
  have d31: "d \<le> 31" using d(2) by (simp add: days_in_month_def split: if_splits)
  have c: "curNum f = (int m + 1) * 100 + int d"
    by (simp add: curNum_def m_def d_def)
  consider "m = 0" | "m = 1" | "m = 2" | "m = 3" | "m = 4" | "m = 5" | "m = 6"
    | "m = 7" | "m = 8" | "m = 9" | "m = 10" | "m = 11"
    using m by atomize_elim arith
  then show ?thesis
    using d d31 by cases (simp_all add: c days_in_month_def)
qed

subsection \<open>Case-insensitive matching of country codes\<close>

lemma upper_char_lower_letters:
  "x \<in> set lower_letters \<Longrightarrow> lower_char (upper_char x) = lower_char x \<and> upper_char (lower_char x) = upper_char x"
  by (auto simp: lower_letters_def upper_letters_def upper_char_def lower_char_def)

lemma upper_char_upper_letters:
  "x \<in> set upper_letters \<Longrightarrow> lower_char (upper_char x) = lower_char x \<and> upper_char (lower_char x) = upper_char x"
  by (auto simp: lower_letters_def upper_letters_def upper_char_def lower_char_def)

lemma upper_char_other:
  assumes "x \<notin> set lower_letters" "x \<notin> set upper_letters"
  shows "upper_char x = x \<and> lower_char x = x"
proof -
  have "map_of (zip lower_letters upper_letters) x = None"
    using assms(1) by (simp add: map_of_eq_None_iff lower_letters_def upper_letters_def)
  moreover have "map_of (zip upper_letters lower_letters) x = None"
    using assms(2) by (simp add: map_of_eq_None_iff lower_letters_def upper_letters_def)
  ultimately show ?thesis by (simp add: upper_char_def lower_char_def)
qed

lemma case_conversions:
  "lower_char (upper_char x) = lower_char x \<and> upper_char (lower_char x) = upper_char x"
proof (cases "x \<in> set lower_letters \<or> x \<in> set upper_letters")
  case True
  then show ?thesis
    using upper_char_lower_letters [of x] upper_char_upper_letters [of x] by blast
next
  case False
  then show ?thesis
    using upper_char_other [of x] by simp
qed

lemma map_case_conversions:
  "map lower_char (map upper_char s) = map lower_char s"
  "map upper_char (map lower_char s) = map upper_char s"
  by (induction s) (simp_all add: case_conversions)

lemma codes_upper: "c \<in> set southernCountryCodes \<Longrightarrow> map upper_char c = c"
  by (auto simp: southernCountryCodes_def upper_char_def lower_letters_def upper_letters_def)

lemma includes_ignoring_case:
  "toUpperCase s \<in> set southernCountryCodes \<longleftrightarrow>
     (\<exists>c \<in> set southernCountryCodes. same_ignoring_case s c)"
proof
  assume a: "toUpperCase s \<in> set southernCountryCodes"
  have "map lower_char (toUpperCase s) = map lower_char s"
    by (simp only: toUpperCase_def map_case_conversions)
  then have "same_ignoring_case s (toUpperCase s)"
    by (simp add: same_ignoring_case_def)
  with a show "\<exists>c \<in> set southernCountryCodes. same_ignoring_case s c" by blast
next
  assume "\<exists>c \<in> set southernCountryCodes. same_ignoring_case s c"
  then obtain c where c: "c \<in> set southernCountryCodes" "map lower_char s = map lower_char c"
    by (auto simp: same_ignoring_case_def)
  have "map upper_char (map lower_char s) = map upper_char (map lower_char c)"
    using c(2) by simp
  then have "map upper_char s = map upper_char c"
    by (simp only: map_case_conversions)
  then show "toUpperCase s \<in> set southernCountryCodes"
    using c(1) by (simp add: toUpperCase_def codes_upper)
qed


subsection \<open>The seasons partition the year\<close>

text \<open>
  C1. For every date of the calendar (366 month and day pairs, February 29 included),
  each of the two calendar types and each hemisphere \<^verbatim>\<open>inferHemisphere\<close> can answer,
  \<^verbatim>\<open>getSeason\<close> returns Spring, Summer, Autumn or Winter, never the fallback; the
  table entry has these four seasons, and the date lies in the range of exactly one.
\<close>

theorem getSeason_partitions_year:
  assumes valid: "valid_month_day (date_month f + 1) (date_day f)"
      and ct: "calendarType opts = JString ct" "ct \<in> {''Astronomical'', ''Meteorological''}"
      and h: "inferHemisphere opts = Inr h"
  shows "getSeason (Date f) opts \<in> {Inr ''Spring'', Inr ''Summer'', Inr ''Autumn'', Inr ''Winter''} \<and>
         (\<exists>defs. lookup_defs (JString ct) h = Inr defs \<and>
            map fst defs = [''Spring'', ''Summer'', ''Autumn'', ''Winter''] \<and>
            length (filter (\<lambda>(season, rng). isDateInRange (Date f) (range_start rng) (range_end rng))
                      defs) = 1)"
proof -
  note v = valid_curNum [OF valid]
  have hs: "h = ''Northern'' \<or> h = ''Southern''"
    using h by (rule inferHemisphere_cases)
  have g: "getSeason (Date f) opts =
             (case lookup_defs (JString ct) h of Inl e \<Rightarrow> Inl e
              | Inr defs \<Rightarrow> Inr (first_season (Date f) defs))"
    using ct(1) h by (simp add: getSeason_def)
  from ct(2) hs consider
      (AN) "ct = ''Astronomical''" "h = ''Northern''"
    | (AS) "ct = ''Astronomical''" "h = ''Southern''"
    | (MN) "ct = ''Meteorological''" "h = ''Northern''"
    | (MS) "ct = ''Meteorological''" "h = ''Southern''"
    by blast
  then show ?thesis
  proof cases
    case AN
    show ?thesis using v unfolding g AN
      by (simp add: lookup_defs_table in_range_table, arith?)
  next
    case AS
    show ?thesis using v unfolding g AS
      by (simp add: lookup_defs_table in_range_table, arith?)
  next
    case MN
    show ?thesis using v unfolding g MN
      by (simp add: lookup_defs_table in_range_table, arith?)
  next
    case MS
    show ?thesis using v unfolding g MS
      by (simp add: lookup_defs_table in_range_table, arith?)
  qed
qed

theorem getSeason_partitions_year_witness:
  "getSeason (date_at 2024 1 29)
     (no_options\<lparr>calendarType := JString ''Meteorological'', hemisphere := JString ''Southern''\<rparr>)
     = Inr ''Summer''"
proof -
  let ?f = "\<lparr>date_year = 2024, date_month = 1, date_day = 29, date_hours = 0,
             date_minutes = 0, date_seconds = 0, date_milliseconds = 0\<rparr>"
  let ?o = "no_options\<lparr>calendarType := JString ''Meteorological'',
                        hemisphere := JString ''Southern''\<rparr>"
  have 1: "valid_month_day (date_month ?f + 1) (date_day ?f)"
    by (simp add: valid_month_day_def days_in_month_def)
  have 2: "calendarType ?o = JString ''Meteorological''"
    by (simp add: no_options_def)
  have 3: "''Meteorological'' \<in> {''Astronomical'', ''Meteorological''}"
    by simp
  have 4: "inferHemisphere ?o = Inr ''Southern''"
    by (simp add: inferHemisphere_def no_options_def)
  have "getSeason (Date ?f) ?o \<in> {Inr ''Spring'', Inr ''Summer'', Inr ''Autumn'', Inr ''Winter''}"
    using getSeason_partitions_year [OF 1 2 3 4] by blast
  moreover have "getSeason (Date ?f) ?o \<notin> {Inr ''Spring'', Inr ''Autumn'', Inr ''Winter''}"
    using 2 4 by (simp add: getSeason_def lookup_defs_table in_range_table curNum_def)
  ultimately show ?thesis
    by (auto simp: date_at_def)
qed


lemma inferHemisphere_no_options: "inferHemisphere no_options = Inr ''Northern''"
  by (simp add: inferHemisphere_def no_options_def)

lemma getSeason_no_options:
  "getSeason d no_options =
     Inr (first_season d
           [(''Spring'', \<lparr>range_start = ''03-21'', range_end = ''06-20''\<rparr>),
            (''Summer'', \<lparr>range_start = ''06-21'', range_end = ''09-20''\<rparr>),
            (''Autumn'', \<lparr>range_start = ''09-21'', range_end = ''12-20''\<rparr>),
            (''Winter'', \<lparr>range_start = ''12-21'', range_end = ''03-20''\<rparr>)])"
  by (simp add: getSeason_def inferHemisphere_no_options lookup_defs_table)
     (simp add: no_options_def lookup_defs_table)

subsection \<open>Inclusive and wrapping ranges\<close>

text \<open>
  C4. For a valid date, \<^verbatim>\<open>isDateInRange\<close> compares \<open>month * 100 + day\<close> with the two
  bounds read from the \<^verbatim>\<open>"MM-DD"\<close> strings, both bounds included; a range whose start
  is greater than its end matches when the date is at or after the start or at or
  before the end. So, for any year and time of day: with no options December 25,
  January 15 and March 20 are in Winter and March 21 is in Spring; March 1 is in Spring
  for the Meteorological calendar and in Winter with no options; December 25 with the
  hemisphere Southern is in Summer.
\<close>

theorem isDateInRange_inclusive_wrapping:
  "(map Number (split CHR ''-'' s) = [Some sm, Some sd] \<and>
    map Number (split CHR ''-'' e) = [Some em, Some ed] \<longrightarrow>
      isDateInRange (Date f) s e =
        (if sm * 100 + sd \<le> em * 100 + ed
         then sm * 100 + sd \<le> curNum f \<and> curNum f \<le> em * 100 + ed
         else sm * 100 + sd \<le> curNum f \<or> curNum f \<le> em * 100 + ed)) \<and>
   getSeason (Date (g\<lparr>date_month := 11, date_day := 25\<rparr>)) no_options = Inr ''Winter'' \<and>
   getSeason (Date (g\<lparr>date_month := 0, date_day := 15\<rparr>)) no_options = Inr ''Winter'' \<and>
   getSeason (Date (g\<lparr>date_month := 2, date_day := 20\<rparr>)) no_options = Inr ''Winter'' \<and>
   getSeason (Date (g\<lparr>date_month := 2, date_day := 21\<rparr>)) no_options = Inr ''Spring'' \<and>
   getSeason (Date (g\<lparr>date_month := 2, date_day := 1\<rparr>))
     (no_options\<lparr>calendarType := JString ''Meteorological''\<rparr>) = Inr ''Spring'' \<and>
   getSeason (Date (g\<lparr>date_month := 2, date_day := 1\<rparr>)) no_options = Inr ''Winter'' \<and>
   getSeason (Date (g\<lparr>date_month := 11, date_day := 25\<rparr>))
     (no_options\<lparr>hemisphere := JString ''Southern''\<rparr>) = Inr ''Summer''"
proof -
  have general: "map Number (split CHR ''-'' s) = [Some sm, Some sd] \<and>
    map Number (split CHR ''-'' e) = [Some em, Some ed] \<longrightarrow>
      isDateInRange (Date f) s e =
        (if sm * 100 + sd \<le> em * 100 + ed
         then sm * 100 + sd \<le> curNum f \<and> curNum f \<le> em * 100 + ed
         else sm * 100 + sd \<le> curNum f \<or> curNum f \<le> em * 100 + ed)"
  proof (intro impI)
    assume a: "map Number (split CHR ''-'' s) = [Some sm, Some sd] \<and>
      map Number (split CHR ''-'' e) = [Some em, Some ed]"
    show "isDateInRange (Date f) s e =
        (if sm * 100 + sd \<le> em * 100 + ed
         then sm * 100 + sd \<le> curNum f \<and> curNum f \<le> em * 100 + ed
         else sm * 100 + sd \<le> curNum f \<or> curNum f \<le> em * 100 + ed)"
      by (rule isDateInRange_numeric [OF a [THEN conjunct1] a [THEN conjunct2]])
  qed
  have default: "getSeason (Date (g\<lparr>date_month := 11, date_day := 25\<rparr>)) no_options = Inr ''Winter''"
    "getSeason (Date (g\<lparr>date_month := 0, date_day := 15\<rparr>)) no_options = Inr ''Winter''"
    "getSeason (Date (g\<lparr>date_month := 2, date_day := 20\<rparr>)) no_options = Inr ''Winter''"
    "getSeason (Date (g\<lparr>date_month := 2, date_day := 21\<rparr>)) no_options = Inr ''Spring''"
    "getSeason (Date (g\<lparr>date_month := 2, date_day := 1\<rparr>)) no_options = Inr ''Winter''"
    by (simp_all add: getSeason_no_options in_range_table curNum_def)
  have meteo: "getSeason (Date (g\<lparr>date_month := 2, date_day := 1\<rparr>))
     (no_options\<lparr>calendarType := JString ''Meteorological''\<rparr>) = Inr ''Spring''"
    by (simp add: getSeason_def inferHemisphere_def no_options_def lookup_defs_table
        in_range_table curNum_def)
  have south: "getSeason (Date (g\<lparr>date_month := 11, date_day := 25\<rparr>))
     (no_options\<lparr>hemisphere := JString ''Southern''\<rparr>) = Inr ''Summer''"
    by (simp add: getSeason_def inferHemisphere_def no_options_def lookup_defs_table
        in_range_table curNum_def)
  show ?thesis
    using general default meteo south by blast
qed

text \<open>The Winter range of the northern Astronomical table, at and around its bounds.\<close>

theorem isDateInRange_inclusive_wrapping_witness:
  "isDateInRange (date_at 2025 0 15) ''12-21'' ''03-20'' \<and>
   isDateInRange (date_at 2025 11 21) ''12-21'' ''03-20'' \<and>
   isDateInRange (date_at 2025 2 20) ''12-21'' ''03-20'' \<and>
   \<not> isDateInRange (date_at 2025 2 21) ''12-21'' ''03-20'' \<and>
   \<not> isDateInRange (date_at 2025 11 20) ''12-21'' ''03-20''"
proof -
  have p: "map Number (split CHR ''-'' ''12-21'') = [Some 12, Some 21] \<and>
           map Number (split CHR ''-'' ''03-20'') = [Some 3, Some 20]"
    by (simp add: Number_def digit_value_def)
  note w = isDateInRange_inclusive_wrapping [of "''12-21''" 12 21 "''03-20''" 3 20,
      THEN conjunct1, rule_format, OF p]
  show ?thesis
    unfolding date_at_def by (simp add: w curNum_def)
qed

subsection \<open>An unrecognised calendar type\<close>

text \<open>
  C2, as stated, fails: with \<^verbatim>\<open>calendarType: "Gregorian"\<close> the lookup
  \<^verbatim>\<open>seasonDefinitions[calendarType]\<close> is \<^verbatim>\<open>undefined\<close> and reading its hemisphere
  property raises a TypeError; \<^verbatim>\<open>Unknown\<close> is not returned.
\<close>

theorem getSeason_Gregorian_raises:
  "getSeason (date_at 2025 0 15) (no_options\<lparr>calendarType := JString ''Gregorian''\<rparr>)
     = Inl TypeError \<and>
   getSeason (date_at 2025 0 15) (no_options\<lparr>calendarType := JString ''Gregorian''\<rparr>)
     \<noteq> Inr ''Unknown''"
  by (simp add: getSeason_def inferHemisphere_def no_options_def lookup_defs_def
      seasonDefinitions_def)

lemma lookup_defs_unrecognised:
  assumes "ct \<noteq> JString ''Astronomical''" "ct \<noteq> JString ''Meteorological''"
  shows "lookup_defs ct h = Inl TypeError"
  using assms by (cases ct) (auto simp: lookup_defs_def seasonDefinitions_def)

text \<open>
  C2, amended. For every date and every options object whose \<^verbatim>\<open>calendarType\<close> is
  present and is neither \<^verbatim>\<open>"Astronomical"\<close> nor \<^verbatim>\<open>"Meteorological"\<close>,
  \<^verbatim>\<open>getSeason\<close> raises a TypeError.
\<close>

theorem getSeason_unrecognised_calendarType:
  assumes "calendarType opts \<noteq> JUndefined"
      and "calendarType opts \<noteq> JString ''Astronomical''"
      and "calendarType opts \<noteq> JString ''Meteorological''"
  shows "getSeason date opts = Inl TypeError"
proof (cases "inferHemisphere opts")
  case (Inl e)
  then show ?thesis by (cases e) (simp add: getSeason_def)
next
  case (Inr h)
  have "(case calendarType opts of JUndefined \<Rightarrow> JString ''Astronomical'' | v \<Rightarrow> v)
          = calendarType opts"
    using assms(1) by (cases "calendarType opts") simp_all
  then show ?thesis
    using Inr assms(2,3) by (simp add: getSeason_def lookup_defs_unrecognised)
qed

text \<open>\<^verbatim>\<open>calendarType: null\<close> (the default replaces only an absent field).\<close>

theorem getSeason_unrecognised_calendarType_witness:
  "getSeason InvalidDate (no_options\<lparr>calendarType := JNull\<rparr>) = Inl TypeError"
proof -
  have "calendarType (no_options\<lparr>calendarType := JNull\<rparr>) \<noteq> JUndefined"
       "calendarType (no_options\<lparr>calendarType := JNull\<rparr>) \<noteq> JString ''Astronomical''"
       "calendarType (no_options\<lparr>calendarType := JNull\<rparr>) \<noteq> JString ''Meteorological''"
    by simp_all
  then show ?thesis by (rule getSeason_unrecognised_calendarType)
qed


subsection \<open>Hemisphere\<close>

text \<open>
  C3, as stated, fails at its own second example: in
  \<^verbatim>\<open>{latitude: -5, countryCode: "US"}\<close> no longitude is given, so the coordinates are
  not used, the country code is not a southern one, and the result is Northern.
\<close>

theorem inferHemisphere_latitude_alone:
  "inferHemisphere (no_options\<lparr>latitude := JNumber (Finite (- 5)),
                              countryCode := JString ''US''\<rparr>) = Inr ''Northern'' \<and>
   inferHemisphere (no_options\<lparr>latitude := JNumber (Finite (- 5)),
                              countryCode := JString ''US''\<rparr>) \<noteq> Inr ''Southern''"
  by (simp add: inferHemisphere_def no_options_def isSouthernCountry_def toUpperCase_def
      upper_char_def lower_letters_def upper_letters_def southernCountryCodes_def)

lemma inferHemisphere_country:
  assumes "hemisphere opts \<noteq> JString ''Northern''" "hemisphere opts \<noteq> JString ''Southern''"
      and "(\<nexists>lat. latitude opts = JNumber lat) \<or> (\<nexists>lon. longitude opts = JNumber lon)"
  shows "inferHemisphere opts =
           (if truthy (countryCode opts)
            then (case isSouthernCountry (countryCode opts) of
                    Inl e \<Rightarrow> Inl e
                  | Inr b \<Rightarrow> Inr (if b then ''Southern'' else ''Northern''))
            else Inr ''Northern'')"
  using assms by (auto simp: inferHemisphere_def split: jsval.splits)

lemma isSouthernCountry_string:
  "isSouthernCountry (JString s) =
     Inr (\<exists>c \<in> set southernCountryCodes. same_ignoring_case s c)"
proof (cases "s = []")
  case True
  have "[] \<notin> set southernCountryCodes"
    by (simp add: southernCountryCodes_def)
  then have "\<not> (\<exists>c \<in> set southernCountryCodes. same_ignoring_case [] c)"
    by (auto simp: same_ignoring_case_def)
  then show ?thesis using True by (simp add: isSouthernCountry_def)
next
  case False
  then show ?thesis
    by (simp add: isSouthernCountry_def includes_ignoring_case)
qed

text \<open>
  C3, amended. The first match wins: an explicit hemisphere \<^verbatim>\<open>"Northern"\<close> or
  \<^verbatim>\<open>"Southern"\<close> is returned; otherwise, when latitude and longitude are both
  numbers, a latitude at or above zero gives Northern and any other latitude Southern,
  whatever the country code; otherwise a country code that is a string gives Southern
  when it equals one of the southern codes up to the case of its letters, and Northern
  when it does not; a falsy country code gives Northern. So
  \<^verbatim>\<open>{hemisphere: "Southern", latitude: 10}\<close> gives Southern,
  \<^verbatim>\<open>{latitude: -5, longitude: n, countryCode: "US"}\<close> gives Southern for every number
  \<open>n\<close> (and Northern without the longitude), \<^verbatim>\<open>{countryCode: "ZA"}\<close> gives Southern
  and \<^verbatim>\<open>{}\<close> gives Northern.
\<close>

theorem inferHemisphere_precedence:
  "(hemisphere opts = JString ''Northern'' \<longrightarrow> inferHemisphere opts = Inr ''Northern'') \<and>
   (hemisphere opts = JString ''Southern'' \<longrightarrow> inferHemisphere opts = Inr ''Southern'') \<and>
   (hemisphere opts \<noteq> JString ''Northern'' \<and> hemisphere opts \<noteq> JString ''Southern'' \<longrightarrow>
      (latitude opts = JNumber lat \<and> longitude opts = JNumber lon \<longrightarrow>
         inferHemisphere opts = Inr (if number_ge_zero lat then ''Northern'' else ''Southern'')) \<and>
      ((\<nexists>x. latitude opts = JNumber x) \<or> (\<nexists>y. longitude opts = JNumber y) \<longrightarrow>
         (countryCode opts = JString s \<longrightarrow>
            inferHemisphere opts =
              Inr (if \<exists>c \<in> set southernCountryCodes. same_ignoring_case s c
                   then ''Southern'' else ''Northern'')) \<and>
         (\<not> truthy (countryCode opts) \<longrightarrow> inferHemisphere opts = Inr ''Northern''))) \<and>
   inferHemisphere (no_options\<lparr>hemisphere := JString ''Southern'',
                              latitude := JNumber (Finite 10)\<rparr>) = Inr ''Southern'' \<and>
   inferHemisphere (no_options\<lparr>latitude := JNumber (Finite (- 5)), longitude := JNumber n,
                              countryCode := JString ''US''\<rparr>) = Inr ''Southern'' \<and>
   inferHemisphere (no_options\<lparr>latitude := JNumber (Finite (- 5)),
                              countryCode := JString ''US''\<rparr>) = Inr ''Northern'' \<and>
   inferHemisphere (no_options\<lparr>countryCode := JString ''ZA''\<rparr>) = Inr ''Southern'' \<and>
   inferHemisphere no_options = Inr ''Northern''"
proof -
  have explicit:
    "hemisphere opts = JString ''Northern'' \<longrightarrow> inferHemisphere opts = Inr ''Northern''"
    "hemisphere opts = JString ''Southern'' \<longrightarrow> inferHemisphere opts = Inr ''Southern''"
    by (simp_all add: inferHemisphere_def)
  have coords:
    "hemisphere opts \<noteq> JString ''Northern'' \<and> hemisphere opts \<noteq> JString ''Southern'' \<longrightarrow>
       latitude opts = JNumber lat \<and> longitude opts = JNumber lon \<longrightarrow>
         inferHemisphere opts = Inr (if number_ge_zero lat then ''Northern'' else ''Southern'')"
    by (simp add: inferHemisphere_def)
  have country:
    "hemisphere opts \<noteq> JString ''Northern'' \<and> hemisphere opts \<noteq> JString ''Southern'' \<longrightarrow>
      (\<nexists>x. latitude opts = JNumber x) \<or> (\<nexists>y. longitude opts = JNumber y) \<longrightarrow>
         (countryCode opts = JString s \<longrightarrow>
            inferHemisphere opts =
              Inr (if \<exists>c \<in> set southernCountryCodes. same_ignoring_case s c
                   then ''Southern'' else ''Northern'')) \<and>
         (\<not> truthy (countryCode opts) \<longrightarrow> inferHemisphere opts = Inr ''Northern'')"
  proof (intro impI, elim conjE)
    assume a: "hemisphere opts \<noteq> JString ''Northern''" "hemisphere opts \<noteq> JString ''Southern''"
       "(\<nexists>x. latitude opts = JNumber x) \<or> (\<nexists>y. longitude opts = JNumber y)"
    note c = inferHemisphere_country [OF a]
    have "countryCode opts = JString s \<longrightarrow>
            inferHemisphere opts =
              Inr (if \<exists>c \<in> set southernCountryCodes. same_ignoring_case s c
                   then ''Southern'' else ''Northern'')"
    proof
      assume s: "countryCode opts = JString s"
      show "inferHemisphere opts =
              Inr (if \<exists>c \<in> set southernCountryCodes. same_ignoring_case s c
                   then ''Southern'' else ''Northern'')"
      proof (cases "s = []")
        case True
        have "[] \<notin> set southernCountryCodes"
          by (simp add: southernCountryCodes_def)
        then have "\<not> (\<exists>c \<in> set southernCountryCodes. same_ignoring_case s c)"
          using True by (auto simp: same_ignoring_case_def)
        then show ?thesis using True s by (simp add: c)
      next
        case False
        then show ?thesis using s by (simp add: c isSouthernCountry_string)
      qed
    qed
    moreover have "\<not> truthy (countryCode opts) \<longrightarrow> inferHemisphere opts = Inr ''Northern''"
      by (simp add: c)
    ultimately show "(countryCode opts = JString s \<longrightarrow>
            inferHemisphere opts =
              Inr (if \<exists>c \<in> set southernCountryCodes. same_ignoring_case s c
                   then ''Southern'' else ''Northern'')) \<and>
         (\<not> truthy (countryCode opts) \<longrightarrow> inferHemisphere opts = Inr ''Northern'')"
      by (rule conjI)
  qed
  have ex1: "inferHemisphere (no_options\<lparr>hemisphere := JString ''Southern'',
                              latitude := JNumber (Finite 10)\<rparr>) = Inr ''Southern''"
    by (simp add: inferHemisphere_def)
  have ex2: "inferHemisphere (no_options\<lparr>latitude := JNumber (Finite (- 5)),
      longitude := JNumber n, countryCode := JString ''US''\<rparr>) = Inr ''Southern''"
    by (simp add: inferHemisphere_def no_options_def)
  have ex3: "inferHemisphere (no_options\<lparr>countryCode := JString ''ZA''\<rparr>) = Inr ''Southern''"
    by (simp add: inferHemisphere_def no_options_def isSouthernCountry_def toUpperCase_def
      upper_char_def lower_letters_def upper_letters_def southernCountryCodes_def)
  have ex4: "inferHemisphere no_options = Inr ''Northern''"
    by (simp add: inferHemisphere_def no_options_def)
  have ex5: "inferHemisphere (no_options\<lparr>latitude := JNumber (Finite (- 5)),
      countryCode := JString ''US''\<rparr>) = Inr ''Northern''"
    by (simp add: inferHemisphere_def no_options_def isSouthernCountry_def toUpperCase_def
      upper_char_def lower_letters_def upper_letters_def southernCountryCodes_def)
  show ?thesis
    using explicit coords country ex1 ex2 ex3 ex4 ex5 by blast
qed

text \<open>One options object for each level of the precedence.\<close>

theorem inferHemisphere_precedence_witness:
  "inferHemisphere (no_options\<lparr>hemisphere := JString ''Northern'',
       latitude := JNumber (Finite (- 33)), longitude := JNumber (Finite 151),
       countryCode := JString ''AU''\<rparr>) = Inr ''Northern'' \<and>
   inferHemisphere (no_options\<lparr>hemisphere := JString ''south'',
       latitude := JNumber (Finite (- 33)), longitude := JNumber (Finite 151),
       countryCode := JString ''US''\<rparr>) = Inr ''Southern'' \<and>
   inferHemisphere (no_options\<lparr>latitude := JString ''48'', longitude := JNumber (Finite 2),
       countryCode := JString ''nz''\<rparr>) = Inr ''Southern'' \<and>
   inferHemisphere (no_options\<lparr>latitude := JNumber (Finite (- 33)),
       countryCode := JNull\<rparr>) = Inr ''Northern''"
proof -
  let ?a = "no_options\<lparr>hemisphere := JString ''Northern'',
       latitude := JNumber (Finite (- 33)), longitude := JNumber (Finite 151),
       countryCode := JString ''AU''\<rparr>"
  let ?b = "no_options\<lparr>hemisphere := JString ''south'',
       latitude := JNumber (Finite (- 33)), longitude := JNumber (Finite 151),
       countryCode := JString ''US''\<rparr>"
  let ?c = "no_options\<lparr>latitude := JString ''48'', longitude := JNumber (Finite 2),
       countryCode := JString ''nz''\<rparr>"
  let ?d = "no_options\<lparr>latitude := JNumber (Finite (- 33)), countryCode := JNull\<rparr>"
  have nz: "\<exists>c \<in> set southernCountryCodes. same_ignoring_case ''nz'' c"
    by (rule bexI [of _ "''NZ''"])
       (simp_all add: same_ignoring_case_def lower_char_def lower_letters_def
          upper_letters_def southernCountryCodes_def)
  have a: "inferHemisphere ?a = Inr ''Northern''"
    using inferHemisphere_precedence [of ?a] by simp
  have b: "inferHemisphere ?b = Inr ''Southern''"
    using inferHemisphere_precedence [of ?b "Finite (- 33)" "Finite 151"] by simp
  have c: "inferHemisphere ?c = Inr ''Southern''"
    using inferHemisphere_precedence [of ?c _ _ "''nz''"] nz by (simp add: no_options_def)
  have d: "inferHemisphere ?d = Inr ''Northern''"
    using inferHemisphere_precedence [of ?d] by (simp add: no_options_def)
  show ?thesis using a b c d by blast
qed



subsection \<open>Results and failures of inferHemisphere\<close>

text \<open>
  C8, as stated, fails: with \<^verbatim>\<open>{countryCode: 42}\<close> the country step is reached,
  \<^verbatim>\<open>isSouthernCountry\<close> calls \<^verbatim>\<open>countryCode.toUpperCase()\<close> on a number and a
  TypeError is raised.
\<close>

theorem inferHemisphere_number_countryCode:
  "inferHemisphere (no_options\<lparr>countryCode := JNumber (Finite 42)\<rparr>) = Inl TypeError"
  by (simp add: inferHemisphere_def no_options_def isSouthernCountry_def)

text \<open>
  C8, amended. Whatever \<^verbatim>\<open>inferHemisphere\<close> returns is Northern or Southern. It
  returns, for any hemisphere, latitude and longitude fields, whenever the country
  code is falsy (absent, \<^verbatim>\<open>null\<close>, empty, zero) or a string, and also whenever an
  explicit hemisphere or two numeric coordinates decide before the country code is
  looked at. When neither decides, a falsy country code gives the Northern default,
  and a truthy country code that has no \<^verbatim>\<open>toUpperCase\<close> method (\<^verbatim>\<open>true\<close>, a number
  other than zero and NaN, a plain object such as \<^verbatim>\<open>{}\<close>) raises a TypeError.
\<close>

theorem inferHemisphere_result:
  "(inferHemisphere opts = Inr h \<longrightarrow> h = ''Northern'' \<or> h = ''Southern'') \<and>
   (\<not> truthy (countryCode opts) \<or> countryCode opts = JString s \<longrightarrow>
      inferHemisphere opts \<in> {Inr ''Northern'', Inr ''Southern''}) \<and>
   (hemisphere opts \<in> {JString ''Northern'', JString ''Southern''} \<or>
    (latitude opts = JNumber lat \<and> longitude opts = JNumber lon) \<longrightarrow>
      inferHemisphere opts \<in> {Inr ''Northern'', Inr ''Southern''}) \<and>
   (hemisphere opts \<notin> {JString ''Northern'', JString ''Southern''} \<and>
    ((\<nexists>x. latitude opts = JNumber x) \<or> (\<nexists>y. longitude opts = JNumber y)) \<longrightarrow>
      (\<not> truthy (countryCode opts) \<longrightarrow> inferHemisphere opts = Inr ''Northern'') \<and>
      (countryCode opts = JBool True \<or> countryCode opts = JObject \<or>
       (countryCode opts = JNumber n \<and> truthy (JNumber n)) \<longrightarrow>
         inferHemisphere opts = Inl TypeError))"
proof -
  have range: "inferHemisphere opts = Inr h \<longrightarrow> h = ''Northern'' \<or> h = ''Southern''"
    using inferHemisphere_cases by blast
  have typed: "\<not> truthy (countryCode opts) \<or> countryCode opts = JString s \<longrightarrow>
      inferHemisphere opts \<in> {Inr ''Northern'', Inr ''Southern''}"
    by (auto simp: inferHemisphere_def isSouthernCountry_def split: jsval.splits)
  have early: "hemisphere opts \<in> {JString ''Northern'', JString ''Southern''} \<or>
    (latitude opts = JNumber lat \<and> longitude opts = JNumber lon) \<longrightarrow>
      inferHemisphere opts \<in> {Inr ''Northern'', Inr ''Southern''}"
    by (auto simp: inferHemisphere_def)
  have late: "hemisphere opts \<notin> {JString ''Northern'', JString ''Southern''} \<and>
    ((\<nexists>x. latitude opts = JNumber x) \<or> (\<nexists>y. longitude opts = JNumber y)) \<longrightarrow>
      (\<not> truthy (countryCode opts) \<longrightarrow> inferHemisphere opts = Inr ''Northern'') \<and>
      (countryCode opts = JBool True \<or> countryCode opts = JObject \<or>
       (countryCode opts = JNumber n \<and> truthy (JNumber n)) \<longrightarrow>
         inferHemisphere opts = Inl TypeError)"
  proof (intro impI)
    assume a: "hemisphere opts \<notin> {JString ''Northern'', JString ''Southern''} \<and>
      ((\<nexists>x. latitude opts = JNumber x) \<or> (\<nexists>y. longitude opts = JNumber y))"
    then have c: "inferHemisphere opts =
           (if truthy (countryCode opts)
            then (case isSouthernCountry (countryCode opts) of
                    Inl e \<Rightarrow> Inl e
                  | Inr b \<Rightarrow> Inr (if b then ''Southern'' else ''Northern''))
            else Inr ''Northern'')"
      by (intro inferHemisphere_country) auto
    show "(\<not> truthy (countryCode opts) \<longrightarrow> inferHemisphere opts = Inr ''Northern'') \<and>
      (countryCode opts = JBool True \<or> countryCode opts = JObject \<or>
       (countryCode opts = JNumber n \<and> truthy (JNumber n)) \<longrightarrow>
         inferHemisphere opts = Inl TypeError)"
      unfolding c by (cases "countryCode opts") (auto simp: isSouthernCountry_def)
  qed
  show ?thesis using range typed early late by blast
qed

text \<open>Invalid fields that degrade to a result, and one that raises.\<close>

theorem inferHemisphere_result_witness:
  "inferHemisphere (no_options\<lparr>hemisphere := JNumber (Finite 1), latitude := JString ''north'',
       longitude := JNull, countryCode := JString ''xx''\<rparr>) = Inr ''Northern'' \<and>
   inferHemisphere (no_options\<lparr>hemisphere := JObject, latitude := JBool True,
       countryCode := JNumber (Finite 0)\<rparr>) = Inr ''Northern'' \<and>
   inferHemisphere (no_options\<lparr>latitude := JNumber NaN, longitude := JNumber (Finite 0),
       countryCode := JObject\<rparr>) \<in> {Inr ''Northern'', Inr ''Southern''} \<and>
   inferHemisphere (no_options\<lparr>latitude := JNumber (Finite 1), countryCode := JBool True\<rparr>)
     = Inl TypeError"
proof -
  let ?a = "no_options\<lparr>hemisphere := JNumber (Finite 1), latitude := JString ''north'',
       longitude := JNull, countryCode := JString ''xx''\<rparr>"
  let ?b = "no_options\<lparr>hemisphere := JObject, latitude := JBool True,
       countryCode := JNumber (Finite 0)\<rparr>"
  let ?c = "no_options\<lparr>latitude := JNumber NaN, longitude := JNumber (Finite 0),
       countryCode := JObject\<rparr>"
  let ?d = "no_options\<lparr>latitude := JNumber (Finite 1), countryCode := JBool True\<rparr>"
  have a1: "inferHemisphere ?a \<in> {Inr ''Northern'', Inr ''Southern''}"
    using inferHemisphere_result [of ?a _ "''xx''"] by simp
  have a2: "inferHemisphere ?a \<noteq> Inr ''Southern''"
    by (simp add: inferHemisphere_def no_options_def isSouthernCountry_def toUpperCase_def
      upper_char_def lower_letters_def upper_letters_def southernCountryCodes_def)
  have b: "inferHemisphere ?b = Inr ''Northern''"
    using inferHemisphere_result [of ?b] by simp
  have c: "inferHemisphere ?c \<in> {Inr ''Northern'', Inr ''Southern''}"
    using inferHemisphere_result [of ?c _ _ NaN "Finite 0"] by (simp add: no_options_def)
  have d: "inferHemisphere ?d = Inl TypeError"
    using inferHemisphere_result [of ?d] by (simp add: no_options_def)
  show ?thesis using a1 a2 b c d by blast
qed

subsection \<open>What getSeason depends on\<close>

lemma first_season_same_day:
  assumes "getMonth d1 = getMonth d2" "getDate d1 = getDate d2"
  shows "first_season d1 defs = first_season d2 defs"
proof (induction defs)
  case Nil
  show ?case by simp
next
  case (Cons entry rest)
  obtain season rng where e: "entry = (season, rng)" by (cases entry)
  have "isDateInRange d1 (range_start rng) (range_end rng)
          = isDateInRange d2 (range_start rng) (range_end rng)"
    using assms by (simp add: isDateInRange_def)
  then show ?case using Cons.IH by (simp add: e)
qed

text \<open>
  C9. Two calls of \<^verbatim>\<open>getSeason\<close> whose dates have the same month and day of the
  month and whose options have the same \<^verbatim>\<open>calendarType\<close>, \<^verbatim>\<open>hemisphere\<close>,
  \<^verbatim>\<open>countryCode\<close>, \<^verbatim>\<open>latitude\<close> and \<^verbatim>\<open>longitude\<close> have the same outcome: the
  year, the time of day, \<^verbatim>\<open>seasonType\<close> and \<^verbatim>\<open>languageCulture\<close> play no part.
\<close>

theorem getSeason_depends_only_on_month_day_and_place:
  assumes "getMonth d1 = getMonth d2" and "getDate d1 = getDate d2"
      and "calendarType o1 = calendarType o2" and "hemisphere o1 = hemisphere o2"
      and "countryCode o1 = countryCode o2"
      and "latitude o1 = latitude o2" and "longitude o1 = longitude o2"
  shows "getSeason d1 o1 = getSeason d2 o2"
proof -
  have h: "inferHemisphere o1 = inferHemisphere o2"
    unfolding inferHemisphere_def assms(4-7) by (rule refl)
  show ?thesis
    using assms(3) h first_season_same_day [OF assms(1,2)]
    by (simp add: getSeason_def split: sum.splits)
qed

text \<open>Another year and time of day, with \<^verbatim>\<open>seasonType: "Special"\<close> and a language.\<close>

theorem getSeason_depends_only_on_month_day_and_place_witness:
  "getSeason (date_at 2024 11 25) no_options =
   getSeason
     (Date \<lparr>date_year = 1999, date_month = 11, date_day = 25, date_hours = 23,
            date_minutes = 59, date_seconds = 58, date_milliseconds = 7\<rparr>)
     (no_options\<lparr>seasonType := JString ''Special'', languageCulture := JString ''en-US''\<rparr>)"
  by (rule getSeason_depends_only_on_month_day_and_place)
     (simp_all add: date_at_def no_options_def)



section \<open>Properties of snow.js\<close>

subsection \<open>Applying a preference\<close>

lemma animation_after_append:
  "animation_after a (ms @ [m]) =
     (case m of Start \<Rightarrow> Running | Stop \<Rightarrow> Stopped | _ \<Rightarrow> animation_after a ms)"
  by (induction a ms rule: animation_after.induct) (simp_all split: message.splits)

lemma new_SnowfallWorker_fields:
  "worker (new_SnowfallWorker t) = worker t @ [Canvas, Resize (innerWidth t) (innerHeight t)]"
  "title (new_SnowfallWorker t) = title t"
  "checked (new_SnowfallWorker t) = checked t"
  "controls (new_SnowfallWorker t) = controls t"
  "animation_state (new_SnowfallWorker t) = animation_state t"
proof -
  have "animation_after Stopped ((worker t @ [Canvas]) @ [Resize (innerWidth t) (innerHeight t)])
          = animation_after Stopped (worker t)"
    by (simp only: animation_after_append) simp
  then show "animation_state (new_SnowfallWorker t) = animation_state t"
    by (simp add: new_SnowfallWorker_def resize_def animation_state_def)
qed (simp_all add: new_SnowfallWorker_def resize_def)

lemma onload_not_winter:
  assumes "getSeason now no_options \<noteq> Inr ''Winter''"
  shows "onload now ls t =
           Inr ((new_SnowfallWorker t)\<lparr>pageTitle := title t, hidden := True, waiting := False\<rparr>)"
proof -
  obtain s where s: "getSeason now no_options = Inr s"
    by (simp add: getSeason_no_options)
  then have "s \<noteq> ''Winter''" using assms by simp
  then show ?thesis
    by (simp add: onload_def s Let_def new_SnowfallWorker_fields)
qed

lemma onload_winter_stored:
  assumes "getSeason now no_options = Inr ''Winter''"
      and "getItem ls storageKey = Some v" and "v \<noteq> []" and "v \<in> set (controls t)"
  shows "onload now ls t =
           Inr ((changeSnowAnimation (Some v)
                  ((new_SnowfallWorker t)\<lparr>pageTitle := title t, checked := Some v\<rparr>))
                \<lparr>hidden := False, waiting := False\<rparr>)"
  using assms
  by (simp add: onload_def Let_def check_control_def new_SnowfallWorker_fields)

lemma onload_winter_absent:
  assumes "getSeason now no_options = Inr ''Winter''"
      and "getItem ls storageKey = None \<or> getItem ls storageKey = Some []"
      and "''snowfall'' \<in> set (controls t)"
  shows "onload now ls t =
           Inr ((changeSnowAnimation (Some ''snowfall'')
                  ((new_SnowfallWorker t)\<lparr>pageTitle := title t, checked := Some ''snowfall''\<rparr>))
                \<lparr>hidden := False, waiting := False\<rparr>)"
  using assms
  by (auto simp: onload_def Let_def check_control_def new_SnowfallWorker_fields)

lemma title_prefix_marks: "title_prefix \<noteq> []"
  by (simp add: title_prefix_def)

lemma changeSnowAnimation_snowfall:
  "animation_state (changeSnowAnimation (Some ''snowfall'') t) = Running"
  "title (changeSnowAnimation (Some ''snowfall'') t) = title_prefix @ pageTitle t"
  "worker (changeSnowAnimation (Some ''snowfall'') t) = worker t @ [Start]"
  by (simp_all add: changeSnowAnimation_def start_def animation_state_def animation_after_append)

lemma changeSnowAnimation_none:
  "animation_state (changeSnowAnimation (Some ''none'') t) = Stopped"
  "title (changeSnowAnimation (Some ''none'') t) = pageTitle t"
  "worker (changeSnowAnimation (Some ''none'') t) = worker t @ [Stop]"
  by (simp_all add: changeSnowAnimation_def stop_def animation_state_def animation_after_append)

lemma changeSnowAnimation_keeps:
  "pageTitle (changeSnowAnimation n t) = pageTitle t"
  "checked (changeSnowAnimation n t) = checked t"
  "controls (changeSnowAnimation n t) = controls t"
  by (simp_all add: changeSnowAnimation_def start_def stop_def)

lemma animation_state_fields:
  "animation_state (t\<lparr>hidden := h\<rparr>) = animation_state t"
  "animation_state (t\<lparr>waiting := w\<rparr>) = animation_state t"
  "animation_state (t\<lparr>pageTitle := p\<rparr>) = animation_state t"
  "animation_state (t\<lparr>checked := c\<rparr>) = animation_state t"
  by (simp_all add: animation_state_def)

subsection \<open>The decision at page load\<close>

text \<open>
  C5. On a page whose animation is stopped and whose markup has a control for
  \<^verbatim>\<open>"snowfall"\<close> and one for \<^verbatim>\<open>"none"\<close>, \<^verbatim>\<open>window.onload\<close> ends without error and:
  in winter with the stored preference \<^verbatim>\<open>"snowfall"\<close> that control is checked, the
  animation runs and the title carries the prefix; in winter with the stored
  preference \<^verbatim>\<open>"none"\<close> that control is checked, the animation is stopped and the
  title is the plain one; in winter with nothing stored the \<^verbatim>\<open>"snowfall"\<close> control is
  checked, the animation runs and the title carries the prefix; outside winter, for
  every content of the storage, the animation stays stopped, only the canvas and
  resize messages are sent, and neither the checked control nor the title changes.
  The prefix is the snowflake U+2744 with the variation selector U+FE0F and a
  blank, so a title that carries it differs from the plain one.
\<close>

theorem onload_decision_table:
  assumes "animation_state t = Stopped"
      and "''snowfall'' \<in> set (controls t)" and "''none'' \<in> set (controls t)"
  shows
   "(getSeason now no_options = Inr ''Winter'' \<and> getItem ls storageKey = Some ''snowfall'' \<longrightarrow>
       (\<exists>t'. onload now ls t = Inr t' \<and> checked t' = Some ''snowfall'' \<and>
             animation_state t' = Running \<and> title t' = title_prefix @ title t \<and>
             title t' \<noteq> title t)) \<and>
    (getSeason now no_options = Inr ''Winter'' \<and> getItem ls storageKey = Some ''none'' \<longrightarrow>
       (\<exists>t'. onload now ls t = Inr t' \<and> checked t' = Some ''none'' \<and>
             animation_state t' = Stopped \<and> title t' = title t)) \<and>
    (getSeason now no_options = Inr ''Winter'' \<and> getItem ls storageKey = None \<longrightarrow>
       (\<exists>t'. onload now ls t = Inr t' \<and> checked t' = Some ''snowfall'' \<and>
             animation_state t' = Running \<and> title t' = title_prefix @ title t \<and>
             title t' \<noteq> title t)) \<and>
    (getSeason now no_options \<noteq> Inr ''Winter'' \<longrightarrow>
       (\<exists>t'. onload now ls t = Inr t' \<and> animation_state t' = Stopped \<and>
             checked t' = checked t \<and> title t' = title t \<and>
             worker t' = worker t @ [Canvas, Resize (innerWidth t) (innerHeight t)])) \<and>
    title_prefix = [CHR 0xE2, CHR 0x9D, CHR 0x84, CHR 0xEF, CHR 0xB8, CHR 0x8F, CHR '' '']"
proof (intro conjI impI; (elim conjE)?)
  assume w: "getSeason now no_options = Inr ''Winter''"
     and s: "getItem ls storageKey = Some ''snowfall''"
  show "\<exists>t'. onload now ls t = Inr t' \<and> checked t' = Some ''snowfall'' \<and>
             animation_state t' = Running \<and> title t' = title_prefix @ title t \<and>
             title t' \<noteq> title t"
    using onload_winter_stored [OF w s _ assms(2)]
    by (simp add: changeSnowAnimation_snowfall changeSnowAnimation_keeps animation_state_fields
        title_prefix_marks)
next
  assume w: "getSeason now no_options = Inr ''Winter''"
     and s: "getItem ls storageKey = Some ''none''"
  show "\<exists>t'. onload now ls t = Inr t' \<and> checked t' = Some ''none'' \<and>
             animation_state t' = Stopped \<and> title t' = title t"
    using onload_winter_stored [OF w s _ assms(3)]
    by (simp add: changeSnowAnimation_none changeSnowAnimation_keeps animation_state_fields)
next
  assume w: "getSeason now no_options = Inr ''Winter''"
     and s: "getItem ls storageKey = None"
  show "\<exists>t'. onload now ls t = Inr t' \<and> checked t' = Some ''snowfall'' \<and>
             animation_state t' = Running \<and> title t' = title_prefix @ title t \<and>
             title t' \<noteq> title t"
    using onload_winter_absent [OF w _ assms(2)] s
    by (simp add: changeSnowAnimation_snowfall changeSnowAnimation_keeps animation_state_fields
        title_prefix_marks)
next
  assume n: "getSeason now no_options \<noteq> Inr ''Winter''"
  show "\<exists>t'. onload now ls t = Inr t' \<and> animation_state t' = Stopped \<and>
             checked t' = checked t \<and> title t' = title t \<and>
             worker t' = worker t @ [Canvas, Resize (innerWidth t) (innerHeight t)]"
    using onload_not_winter [OF n] assms(1)
    by (simp add: new_SnowfallWorker_fields animation_state_fields)
next
  show "title_prefix = [CHR 0xE2, CHR 0x9D, CHR 0x84, CHR 0xEF, CHR 0xB8, CHR 0x8F, CHR '' '']"
    by (simp add: title_prefix_def)
qed

text \<open>Christmas Day with each stored preference, and the first of July.\<close>

theorem onload_decision_table_witness:
  "(let t = \<lparr>worker = [], title = ''Home'', pageTitle = [],
             controls = [''snowfall'', ''none''], checked = None, hidden = True,
             innerWidth = 800, innerHeight = 600, waiting = False, timers = []\<rparr>
    in (\<exists>t'. onload (date_at 2025 11 25) [storageKey \<mapsto> ''snowfall''] t = Inr t' \<and>
              checked t' = Some ''snowfall'' \<and> animation_state t' = Running \<and>
              title t' = title_prefix @ ''Home'' \<and> title t' \<noteq> ''Home'') \<and>
       (\<exists>t'. onload (date_at 2025 11 25) [storageKey \<mapsto> ''none''] t = Inr t' \<and>
              checked t' = Some ''none'' \<and> animation_state t' = Stopped \<and>
              title t' = ''Home'') \<and>
       (\<exists>t'. onload (date_at 2025 11 25) Map.empty t = Inr t' \<and>
              checked t' = Some ''snowfall'' \<and> animation_state t' = Running \<and>
              title t' = title_prefix @ ''Home'' \<and> title t' \<noteq> ''Home'') \<and>
       (\<exists>t'. onload (date_at 2025 6 1) [storageKey \<mapsto> ''snowfall''] t = Inr t' \<and>
              animation_state t' = Stopped \<and> checked t' = None \<and> title t' = ''Home'' \<and>
              worker t' = [Canvas, Resize 800 600]) \<and>
       title_prefix = [CHR 0xE2, CHR 0x9D, CHR 0x84, CHR 0xEF, CHR 0xB8, CHR 0x8F, CHR '' ''])"
proof -
  define t where "t = \<lparr>worker = [], title = ''Home'', pageTitle = [],
             controls = [''snowfall'', ''none''], checked = None, hidden = True,
             innerWidth = 800, innerHeight = 600, waiting = False, timers = []\<rparr>"
  have stopped: "animation_state t = Stopped"
    by (simp add: t_def animation_state_def)
  have markup: "''snowfall'' \<in> set (controls t)" "''none'' \<in> set (controls t)"
    by (simp_all add: t_def)
  have winter: "getSeason (date_at 2025 11 25) no_options = Inr ''Winter''"
    by (simp add: getSeason_no_options date_at_def in_range_table curNum_def)
  have summer: "getSeason (date_at 2025 6 1) no_options \<noteq> Inr ''Winter''"
    by (simp add: getSeason_no_options date_at_def in_range_table curNum_def)
  note table = onload_decision_table [OF stopped markup]
  have 1: "\<exists>t'. onload (date_at 2025 11 25) [storageKey \<mapsto> ''snowfall''] t = Inr t' \<and>
              checked t' = Some ''snowfall'' \<and> animation_state t' = Running \<and>
              title t' = title_prefix @ ''Home'' \<and> title t' \<noteq> ''Home''"
    using table [of "date_at 2025 11 25" "[storageKey \<mapsto> ''snowfall'']"] winter
    by (simp add: getItem_def t_def title_prefix_marks)
  have 2: "\<exists>t'. onload (date_at 2025 11 25) [storageKey \<mapsto> ''none''] t = Inr t' \<and>
              checked t' = Some ''none'' \<and> animation_state t' = Stopped \<and>
              title t' = ''Home''"
    using table [of "date_at 2025 11 25" "[storageKey \<mapsto> ''none'']"] winter
    by (simp add: getItem_def t_def)
  have 3: "\<exists>t'. onload (date_at 2025 11 25) Map.empty t = Inr t' \<and>
              checked t' = Some ''snowfall'' \<and> animation_state t' = Running \<and>
              title t' = title_prefix @ ''Home'' \<and> title t' \<noteq> ''Home''"
    using table [of "date_at 2025 11 25" Map.empty] winter
    by (simp add: getItem_def t_def title_prefix_marks)
  have 4: "\<exists>t'. onload (date_at 2025 6 1) [storageKey \<mapsto> ''snowfall''] t = Inr t' \<and>
              animation_state t' = Stopped \<and> checked t' = None \<and> title t' = ''Home'' \<and>
              worker t' = [Canvas, Resize 800 600]"
    using table [of "date_at 2025 6 1" "[storageKey \<mapsto> ''snowfall'']"] summer
    by (simp add: t_def)
  have 5: "title_prefix = [CHR 0xE2, CHR 0x9D, CHR 0x84, CHR 0xEF, CHR 0xB8, CHR 0x8F, CHR '' '']"
    using table [of "date_at 2025 11 25" Map.empty] by blast
  show ?thesis
    unfolding Let_def t_def [symmetric] using 1 2 3 4 5 by blast
qed

subsection \<open>Toggling and reading back\<close>

text \<open>
  C7. After the change listener has run with the value \<^verbatim>\<open>"snowfall"\<close>, the stored
  preference reads back as \<^verbatim>\<open>"snowfall"\<close>, the animation of that tab runs and its
  title is the prefix followed by the page title; in any other tab \<open>u\<close> the storage
  listener, reading the same storage, does the same to that tab. With the value
  \<^verbatim>\<open>"none"\<close> the preference reads back as \<^verbatim>\<open>"none"\<close>, the animation is stopped and the
  title is the page title without prefix, in both tabs. The prefix is the snowflake
  U+2744 with the variation selector U+FE0F and a blank, so the prefixed title is
  never the plain one.
\<close>

theorem preference_round_trip:
  "getItem (fst (radio_change ''snowfall'' (ls, t))) storageKey = Some ''snowfall'' \<and>
   animation_state (snd (radio_change ''snowfall'' (ls, t))) = Running \<and>
   title (snd (radio_change ''snowfall'' (ls, t))) = title_prefix @ pageTitle t \<and>
   title (snd (radio_change ''snowfall'' (ls, t))) \<noteq> pageTitle t \<and>
   animation_state (storage_listener (fst (radio_change ''snowfall'' (ls, t))) u) = Running \<and>
   title (storage_listener (fst (radio_change ''snowfall'' (ls, t))) u)
     = title_prefix @ pageTitle u \<and>
   title (storage_listener (fst (radio_change ''snowfall'' (ls, t))) u) \<noteq> pageTitle u \<and>
   getItem (fst (radio_change ''none'' (ls, t))) storageKey = Some ''none'' \<and>
   animation_state (snd (radio_change ''none'' (ls, t))) = Stopped \<and>
   title (snd (radio_change ''none'' (ls, t))) = pageTitle t \<and>
   animation_state (storage_listener (fst (radio_change ''none'' (ls, t))) u) = Stopped \<and>
   title (storage_listener (fst (radio_change ''none'' (ls, t))) u) = pageTitle u \<and>
   title_prefix = [CHR 0xE2, CHR 0x9D, CHR 0x84, CHR 0xEF, CHR 0xB8, CHR 0x8F, CHR '' '']"
proof -
  have literal: "title_prefix = [CHR 0xE2, CHR 0x9D, CHR 0x84, CHR 0xEF, CHR 0xB8, CHR 0x8F, CHR '' '']"
    by (simp add: title_prefix_def)
  have rest:
   "getItem (fst (radio_change ''snowfall'' (ls, t))) storageKey = Some ''snowfall'' \<and>
    animation_state (snd (radio_change ''snowfall'' (ls, t))) = Running \<and>
    title (snd (radio_change ''snowfall'' (ls, t))) = title_prefix @ pageTitle t \<and>
    title (snd (radio_change ''snowfall'' (ls, t))) \<noteq> pageTitle t \<and>
    animation_state (storage_listener (fst (radio_change ''snowfall'' (ls, t))) u) = Running \<and>
    title (storage_listener (fst (radio_change ''snowfall'' (ls, t))) u)
      = title_prefix @ pageTitle u \<and>
    title (storage_listener (fst (radio_change ''snowfall'' (ls, t))) u) \<noteq> pageTitle u \<and>
    getItem (fst (radio_change ''none'' (ls, t))) storageKey = Some ''none'' \<and>
    animation_state (snd (radio_change ''none'' (ls, t))) = Stopped \<and>
    title (snd (radio_change ''none'' (ls, t))) = pageTitle t \<and>
    animation_state (storage_listener (fst (radio_change ''none'' (ls, t))) u) = Stopped \<and>
    title (storage_listener (fst (radio_change ''none'' (ls, t))) u) = pageTitle u"
    by (simp add: radio_change_def storage_listener_def getItem_def setItem_def
        changeSnowAnimation_snowfall changeSnowAnimation_none title_prefix_marks)
  show ?thesis
    using rest literal by blast
qed

text \<open>A tab that toggles and a second tab of the same origin.\<close>

theorem preference_round_trip_witness:
  "(let t = \<lparr>worker = [Canvas, Resize 800 600], title = ''Home'', pageTitle = ''Home'',
             controls = [''snowfall'', ''none''], checked = None, hidden = False,
             innerWidth = 800, innerHeight = 600, waiting = False, timers = []\<rparr>;
        u = \<lparr>worker = [Canvas, Resize 1024 768, Start], title = title_prefix @ ''About'',
             pageTitle = ''About'', controls = [''snowfall'', ''none''],
             checked = Some ''snowfall'', hidden = False,
             innerWidth = 1024, innerHeight = 768, waiting = False, timers = []\<rparr>
    in getItem (fst (radio_change ''none'' (Map.empty, t))) storageKey = Some ''none'' \<and>
       animation_state (storage_listener (fst (radio_change ''none'' (Map.empty, t))) u)
         = Stopped \<and>
       title (storage_listener (fst (radio_change ''none'' (Map.empty, t))) u) = ''About'' \<and>
       animation_state (snd (radio_change ''snowfall'' (Map.empty, t))) = Running \<and>
       title (snd (radio_change ''snowfall'' (Map.empty, t))) = title_prefix @ ''Home'' \<and>
       title (snd (radio_change ''snowfall'' (Map.empty, t))) \<noteq> ''Home'' \<and>
       title_prefix = [CHR 0xE2, CHR 0x9D, CHR 0x84, CHR 0xEF, CHR 0xB8, CHR 0x8F, CHR '' ''])"
  using preference_round_trip
    [of Map.empty
        "\<lparr>worker = [Canvas, Resize 800 600], title = ''Home'', pageTitle = ''Home'',
             controls = [''snowfall'', ''none''], checked = None, hidden = False,
             innerWidth = 800, innerHeight = 600, waiting = False, timers = []\<rparr>"
        "\<lparr>worker = [Canvas, Resize 1024 768, Start], title = title_prefix @ ''About'',
             pageTitle = ''About'', controls = [''snowfall'', ''none''],
             checked = Some ''snowfall'', hidden = False,
             innerWidth = 1024, innerHeight = 768, waiting = False, timers = []\<rparr>"]
  by (simp add: Let_def title_prefix_marks)

subsection \<open>Values that are not a preference\<close>

text \<open>
  C10. \<^verbatim>\<open>changeSnowAnimation\<close> with an argument that is neither \<^verbatim>\<open>"snowfall"\<close> nor
  \<^verbatim>\<open>"none"\<close> (\<^verbatim>\<open>null\<close> or any other string) leaves the tab as it is: no message is
  sent and the title stays. So does the storage listener when the key is missing
  from the storage.
\<close>

theorem changeSnowAnimation_other_value:
  "(animationName \<noteq> Some ''snowfall'' \<and> animationName \<noteq> Some ''none'' \<longrightarrow>
      changeSnowAnimation animationName t = t) \<and>
   (getItem ls storageKey = None \<longrightarrow>
      storage_listener ls t = t \<and> worker (storage_listener ls t) = worker t \<and>
      title (storage_listener ls t) = title t)"
  by (simp add: changeSnowAnimation_def storage_listener_def)

text \<open>\<^verbatim>\<open>null\<close>, two other strings and an empty storage, on a tab that is snowing.\<close>

theorem changeSnowAnimation_other_value_witness:
  "(let sample_tab =
      \<lparr>worker = [Canvas, Resize 800 600, Start], title = title_prefix @ ''Home'',
       pageTitle = ''Home'', controls = [''snowfall'', ''none''],
       checked = Some ''snowfall'', hidden = False, innerWidth = 800, innerHeight = 600,
       waiting = False, timers = []\<rparr>
    in changeSnowAnimation None sample_tab = sample_tab \<and>
       changeSnowAnimation (Some ''rain'') sample_tab = sample_tab \<and>
       changeSnowAnimation (Some ''Snowfall'') sample_tab = sample_tab \<and>
       storage_listener Map.empty sample_tab = sample_tab)"
proof -
  define sample_tab where "sample_tab =
      \<lparr>worker = [Canvas, Resize 800 600, Start], title = title_prefix @ ''Home'',
       pageTitle = ''Home'', controls = [''snowfall'', ''none''],
       checked = Some ''snowfall'', hidden = False, innerWidth = 800, innerHeight = 600,
       waiting = False, timers = []\<rparr>"
  have 1: "changeSnowAnimation None sample_tab = sample_tab"
    using changeSnowAnimation_other_value [of None sample_tab] by simp
  have 2: "changeSnowAnimation (Some ''rain'') sample_tab = sample_tab"
    using changeSnowAnimation_other_value [of "Some ''rain''" sample_tab] by simp
  have 3: "changeSnowAnimation (Some ''Snowfall'') sample_tab = sample_tab"
    using changeSnowAnimation_other_value [of "Some ''Snowfall''" sample_tab] by simp
  have 4: "storage_listener Map.empty sample_tab = sample_tab"
    using changeSnowAnimation_other_value [of _ sample_tab Map.empty]
    by (simp add: getItem_def)
  show ?thesis
    unfolding Let_def sample_tab_def [symmetric] using 1 2 3 4 by blast
qed

subsection \<open>The resize throttle\<close>

lemma on_resize_forwards:
  assumes "\<forall>d \<in> set (timers t). d \<le> ev_time ev" and "waiting t \<longrightarrow> timers t \<noteq> []"
  shows "worker (on_resize t ev) = worker t @ [Resize (ev_width ev) (ev_height ev)] \<and>
         waiting (on_resize t ev) \<and> timers (on_resize t ev) = [ev_time ev + 33]"
proof (cases "timers t = []")
  case True
  then have "advance (ev_time ev) t = t" "\<not> waiting t"
    using assms(2) by (simp_all add: advance_def)
  then show ?thesis
    using True by (simp add: on_resize_def resize_listener_def throttle_def resize_def Let_def)
next
  case False
  then have ex: "\<exists>d \<in> set (timers t). d \<le> ev_time ev"
    using assms(1) by (cases "timers t") auto
  have "filter (\<lambda>d. ev_time ev < d) (timers t) = []"
    using assms(1) by (auto simp: filter_empty_conv)
  then have "advance (ev_time ev) t = t\<lparr>waiting := False, timers := []\<rparr>"
    using ex by (simp add: advance_def)
  then show ?thesis
    by (simp add: on_resize_def resize_listener_def throttle_def resize_def Let_def)
qed

lemma on_resize_drops:
  assumes "waiting t" and "\<forall>d \<in> set (timers t). ev_time ev < d"
  shows "worker (on_resize t ev) = worker t \<and> waiting (on_resize t ev) \<and>
         timers (on_resize t ev) = timers t"
proof -
  have "advance (ev_time ev) t = t"
    using assms(2) by (auto simp: advance_def)
  then show ?thesis
    using assms(1) by (simp add: on_resize_def resize_listener_def throttle_def)
qed

lemma on_resizes_drops:
  assumes "waiting t" and "timers t = [D]" and "\<forall>e \<in> set evs. ev_time e < D"
  shows "worker (on_resizes t evs) = worker t \<and> waiting (on_resizes t evs) \<and>
         timers (on_resizes t evs) = [D]"
  using assms
proof (induction evs arbitrary: t)
  case Nil
  then show ?case by (simp add: on_resizes_def)
next
  case (Cons e evs)
  have d: "worker (on_resize t e) = worker t \<and> waiting (on_resize t e) \<and>
         timers (on_resize t e) = timers t"
    using Cons.prems by (intro on_resize_drops) simp_all
  have "worker (on_resizes (on_resize t e) evs) = worker (on_resize t e) \<and>
        waiting (on_resizes (on_resize t e) evs) \<and>
        timers (on_resizes (on_resize t e) evs) = [D]"
    using Cons.prems d by (intro Cons.IH) simp_all
  then show ?case using d by (simp add: on_resizes_def)
qed

lemma advance_worker: "worker (advance T t) = worker t"
  by (simp add: advance_def)

lemma on_resizes_spaced:
  assumes "\<forall>d \<in> set (timers t). \<forall>e \<in> set (take 1 evs). d \<le> ev_time e"
      and "waiting t \<longrightarrow> timers t \<noteq> []"
      and "spaced_beyond 33 (map ev_time evs)"
  shows "worker (on_resizes t evs) =
           worker t @ map (\<lambda>e. Resize (ev_width e) (ev_height e)) evs"
  using assms
proof (induction evs arbitrary: t)
  case Nil
  then show ?case by (simp add: on_resizes_def)
next
  case (Cons e evs)
  have f: "worker (on_resize t e) = worker t @ [Resize (ev_width e) (ev_height e)] \<and>
         waiting (on_resize t e) \<and> timers (on_resize t e) = [ev_time e + 33]"
    using Cons.prems(1,2) by (intro on_resize_forwards) simp_all
  have next_ok: "\<forall>d \<in> set (timers (on_resize t e)). \<forall>e' \<in> set (take 1 evs). d \<le> ev_time e'"
    using f Cons.prems(3) by (cases evs) simp_all
  have sp: "spaced_beyond 33 (map ev_time evs)"
    using Cons.prems(3) by (cases evs) simp_all
  have "worker (on_resizes (on_resize t e) evs) =
          worker (on_resize t e) @ map (\<lambda>e. Resize (ev_width e) (ev_height e)) evs"
    using next_ok f sp by (intro Cons.IH) simp_all
  then show ?case using f by (simp add: on_resizes_def)
qed

text \<open>
  C6. From an idle throttle (latch clear, no pending timer) and on a clock where a
  \<^verbatim>\<open>setTimeout\<close> callback runs when its deadline comes: of resize events that all come
  less than 33 ms after the first one, only the first is forwarded to the worker,
  and nothing more is forwarded however long the clock then runs; of resize events
  that each come more than 33 ms after the one before, every one is forwarded, in
  order, each with the window size of its moment.
\<close>

theorem resize_throttle_leading_edge:
  "\<not> waiting t \<and> timers t = [] \<longrightarrow>
     ((\<forall>e \<in> set rest. ev_time e < ev_time first + 33) \<longrightarrow>
        worker (on_resizes t (first # rest))
          = worker t @ [Resize (ev_width first) (ev_height first)] \<and>
        worker (advance T (on_resizes t (first # rest)))
          = worker t @ [Resize (ev_width first) (ev_height first)]) \<and>
     (spaced_beyond 33 (map ev_time evs) \<longrightarrow>
        worker (on_resizes t evs)
          = worker t @ map (\<lambda>e. Resize (ev_width e) (ev_height e)) evs \<and>
        length (worker (on_resizes t evs)) = length (worker t) + length evs)"
proof (intro impI conjI; elim conjE)
  assume idle: "\<not> waiting t" "timers t = []"
  {
    assume w: "\<forall>e \<in> set rest. ev_time e < ev_time first + 33"
    have f: "worker (on_resize t first) = worker t @ [Resize (ev_width first) (ev_height first)] \<and>
         waiting (on_resize t first) \<and> timers (on_resize t first) = [ev_time first + 33]"
      using idle by (intro on_resize_forwards) simp_all
    have "worker (on_resizes (on_resize t first) rest) = worker (on_resize t first) \<and>
          waiting (on_resizes (on_resize t first) rest) \<and>
          timers (on_resizes (on_resize t first) rest) = [ev_time first + 33]"
      using f w by (intro on_resizes_drops) simp_all
    then show "worker (on_resizes t (first # rest))
          = worker t @ [Resize (ev_width first) (ev_height first)]"
      using f by (simp add: on_resizes_def)
    then show "worker (advance T (on_resizes t (first # rest)))
          = worker t @ [Resize (ev_width first) (ev_height first)]"
      by (simp add: advance_worker)
  }
  {
    assume s: "spaced_beyond 33 (map ev_time evs)"
    show "worker (on_resizes t evs)
          = worker t @ map (\<lambda>e. Resize (ev_width e) (ev_height e)) evs"
      using idle s by (intro on_resizes_spaced) simp_all
    then show "length (worker (on_resizes t evs)) = length (worker t) + length evs"
      by simp
  }
qed

text \<open>Three events inside one window, and three events 34 ms apart.\<close>

theorem resize_throttle_leading_edge_witness:
  "(let t = \<lparr>worker = [Canvas, Resize 800 600], title = ''Home'', pageTitle = ''Home'',
             controls = [''snowfall'', ''none''], checked = None, hidden = True,
             innerWidth = 800, innerHeight = 600, waiting = False, timers = []\<rparr>;
        a = \<lparr>ev_time = 1000, ev_width = 790, ev_height = 600\<rparr>;
        b = \<lparr>ev_time = 1016, ev_width = 780, ev_height = 600\<rparr>;
        c = \<lparr>ev_time = 1032, ev_width = 770, ev_height = 600\<rparr>;
        d = \<lparr>ev_time = 1034, ev_width = 760, ev_height = 600\<rparr>;
        e = \<lparr>ev_time = 1068, ev_width = 750, ev_height = 600\<rparr>
    in worker (on_resizes t [a, b, c]) = [Canvas, Resize 800 600, Resize 790 600] \<and>
       worker (advance 5000 (on_resizes t [a, b, c]))
         = [Canvas, Resize 800 600, Resize 790 600] \<and>
       worker (on_resizes t [a, d, e])
         = [Canvas, Resize 800 600, Resize 790 600, Resize 760 600, Resize 750 600])"
proof -
  define t where "t = \<lparr>worker = [Canvas, Resize 800 600], title = ''Home'', pageTitle = ''Home'',
             controls = [''snowfall'', ''none''], checked = None, hidden = True,
             innerWidth = 800, innerHeight = 600, waiting = False, timers = []\<rparr>"
  define a where "a = \<lparr>ev_time = 1000, ev_width = 790, ev_height = 600\<rparr>"
  define b where "b = \<lparr>ev_time = 1016, ev_width = 780, ev_height = 600\<rparr>"
  define c where "c = \<lparr>ev_time = 1032, ev_width = 770, ev_height = 600\<rparr>"
  define d where "d = \<lparr>ev_time = 1034, ev_width = 760, ev_height = 600\<rparr>"
  define e where "e = \<lparr>ev_time = 1068, ev_width = 750, ev_height = 600\<rparr>"
  have idle: "\<not> waiting t \<and> timers t = []"
    by (simp add: t_def)
  have within: "\<forall>x \<in> set [b, c]. ev_time x < ev_time a + 33"
    by (simp add: a_def b_def c_def)
  have beyond: "spaced_beyond 33 (map ev_time [a, d, e])"
    by (simp add: a_def d_def e_def)
  have "worker (on_resizes t [a, b, c]) = [Canvas, Resize 800 600, Resize 790 600] \<and>
       worker (advance 5000 (on_resizes t [a, b, c]))
         = [Canvas, Resize 800 600, Resize 790 600] \<and>
       worker (on_resizes t [a, d, e])
         = [Canvas, Resize 800 600, Resize 790 600, Resize 760 600, Resize 750 600]"
    using resize_throttle_leading_edge [of t "[b, c]" a 5000 "[a, d, e]"] idle within beyond
    by (simp add: t_def a_def d_def e_def)
  then show ?thesis
    unfolding Let_def t_def a_def b_def c_def d_def e_def .
qed

end
